theory Spec2Isabelle
  imports Complex_Main
begin

section \<open>The MRIStep time-stepping module of ARKODE (arkode\_mristep.c)\<close>

text \<open>
  A shallow embedding of the multirate infinitesimal step driver. A value of the C
  type \<^verbatim>\<open>realtype\<close> is the real number it holds (a finite value: the model has no
  NaN and no infinity), \<^verbatim>\<open>int\<close> is read as the integers, and an \<^verbatim>\<open>N_Vector\<close> as
  an element of an arbitrary real vector space \<open>'v\<close>. Arrays are lists; a \<^verbatim>\<open>NULL\<close>
  array pointer is the empty list (every array this file allocates has at least one
  element).

  The routines that work on the coupling table (\<^verbatim>\<open>mriStep_StageType\<close>,
  \<^verbatim>\<open>mriStep_RKCoeffs\<close> and the sums and differences of
  \<^verbatim>\<open>mriStep_CheckCoupling\<close>) accumulate \<^verbatim>\<open>realtype\<close> values and compare them
  with a tolerance of a hundred units of roundoff, so there the rounding of every
  arithmetic operation is part of the model. The scalars of a step (stage times,
  forcing coefficients) are handed to the vector kernels and to the callbacks, whose
  arithmetic is outside this file; they are written with the operations of the reals.
\<close>

subsection \<open>Constants of the headers\<close>

text \<open>
  The macros below come from \<^verbatim>\<open>arkode.h\<close>, \<^verbatim>\<open>arkode_impl.h\<close>,
  \<^verbatim>\<open>arkode_mristep_impl.h\<close> and \<^verbatim>\<open>sundials_types.h\<close>, which are not among
  the sources of this module. They are parameters of the model: every function takes
  the record \<open>K\<close> of their values. The type \<^verbatim>\<open>realtype\<close> is fixed by
  \<^verbatim>\<open>sundials_types.h\<close> as well (\<^verbatim>\<open>float\<close>, \<^verbatim>\<open>double\<close> or \<^verbatim>\<open>long double\<close>):
  \<open>realtype_round\<close> maps a real number to the value of the type that it is rounded
  to.
\<close>

record ark_consts =
  UNIT_ROUNDOFF :: real
  realtype_round :: "real \<Rightarrow> real"
  ARK_MEM_NULL :: int
  ARK_MEM_FAIL :: int
  ARK_ILL_INPUT :: int
  ARK_INVALID_TABLE :: int
  ARK_RHSFUNC_FAIL :: int
  ARK_UNREC_RHSFUNC_ERR :: int
  ARK_NLS_INIT_FAIL :: int
  ARK_NLS_SETUP_FAIL :: int
  ARK_NLS_SETUP_RECVR :: int
  ARK_LINIT_FAIL :: int
  ARK_INNERSTEP_FAIL :: int
  ARK_OUTERTOINNER_FAIL :: int
  ARK_INNERTOOUTER_FAIL :: int
  ARK_POSTPROCESS_STAGE_FAIL :: int
  ARK_USER_PREDICT_FAIL :: int
  ARK_VECTOROP_ERR :: int
  TRY_AGAIN :: int
  MRISTAGE_ERK_FAST :: int
  MRISTAGE_ERK_NOFAST :: int
  MRISTAGE_DIRK_NOFAST :: int
  MRISTAGE_DIRK_FAST :: int
  ARK_FULLRHS_START :: int
  ARK_FULLRHS_END :: int
  ARK_FULLRHS_OTHER :: int
  FIRST_INIT :: int
  RESET_INIT :: int

text \<open>
  \<^verbatim>\<open>ARK_SUCCESS\<close> is zero: the header comment of \<^verbatim>\<open>mriStep_TakeStep\<close> documents
  the return value \<^verbatim>\<open>0\<close> as "step completed successfully", and the code tests
  callback results against \<^verbatim>\<open>0\<close> and \<^verbatim>\<open>ARK_SUCCESS\<close> interchangeably.
\<close>

definition ARK_SUCCESS :: int where
  "ARK_SUCCESS = 0"

text \<open>
  An arithmetic operation on \<^verbatim>\<open>realtype\<close> values yields the exact result, rounded.
\<close>

definition realtype_add :: "ark_consts \<Rightarrow> real \<Rightarrow> real \<Rightarrow> real" where
  "realtype_add K a b = realtype_round K (a + b)"

definition realtype_sub :: "ark_consts \<Rightarrow> real \<Rightarrow> real \<Rightarrow> real" where
  "realtype_sub K a b = realtype_round K (a - b)"

definition realtype_mul :: "ark_consts \<Rightarrow> real \<Rightarrow> real \<Rightarrow> real" where
  "realtype_mul K a b = realtype_round K (a * b)"

definition realtype_div :: "ark_consts \<Rightarrow> real \<Rightarrow> real \<Rightarrow> real" where
  "realtype_div K a b = realtype_round K (a / b)"

text \<open>
  Rounding to double precision: to the nearest number with a significand of 53 bits,
  a tie going to the even significand. \<open>halve_count\<close> and \<open>double_count\<close> find the
  binary exponent of a positive number, by halving a number from 2 on and by doubling
  a number below 1; the number, scaled to lie between \<open>2 ^ 52\<close> and \<open>2 ^ 53\<close>, is then
  rounded to an integer. The range of the exponent is not bounded: overflow and
  gradual underflow are left out.
\<close>

function halve_count :: "real \<Rightarrow> nat" where
  "halve_count x = (if x < 2 then 0 else Suc (halve_count (x / 2)))"
  by pat_completeness auto
termination
proof (relation "measure (\<lambda>x. nat \<lceil>x\<rceil>)", goal_cases)
  case 1
  then show ?case by simp
next
  case (2 x)
  then have "2 \<le> x" by simp
  then have "\<lceil>x / 2\<rceil> < \<lceil>x\<rceil>" by linarith
  then show ?case using \<open>2 \<le> x\<close> by simp
qed

function double_count :: "real \<Rightarrow> nat" where
  "double_count x = (if 1 \<le> x \<or> x \<le> 0 then 0 else Suc (double_count (2 * x)))"
  by pat_completeness auto
termination
proof (relation "measure (\<lambda>x. nat \<lceil>1 / x\<rceil>)", goal_cases)
  case 1
  then show ?case by simp
next
  case (2 x)
  then have x: "0 < x" "x < 1" by simp_all
  define y where "y = 1 / (2 * x)"
  have y: "1 / x = 2 * y" "1 / 2 < y" using x by (simp_all add: y_def field_simps)
  have a: "of_int \<lceil>y\<rceil> < y + 1" "2 * y \<le> of_int \<lceil>2 * y\<rceil>" by linarith+
  have "(1::real) < of_int \<lceil>2 * y\<rceil>" using a(2) y(2) by linarith
  then have b: "1 < \<lceil>2 * y\<rceil>" by linarith
  have "of_int (2 * \<lceil>y\<rceil> - 2) < (of_int \<lceil>2 * y\<rceil> :: real)" using a by linarith
  then have c: "2 * \<lceil>y\<rceil> - 2 < \<lceil>2 * y\<rceil>" by (simp only: of_int_less_iff)
  have "\<lceil>y\<rceil> < \<lceil>2 * y\<rceil>" using b c by linarith
  then have "\<lceil>1 / (2 * x)\<rceil> < \<lceil>1 / x\<rceil>" by (simp only: y(1) y_def)
  moreover have "0 < \<lceil>1 / x\<rceil>" using b by (simp only: y(1))
  ultimately have "nat \<lceil>1 / (2 * x)\<rceil> < nat \<lceil>1 / x\<rceil>" by linarith
  then show ?case by simp
qed

declare halve_count.simps [simp del] double_count.simps [simp del]

definition round_even :: "real \<Rightarrow> int" where
  "round_even t =
     (if t - of_int \<lfloor>t\<rfloor> < 1 / 2 then \<lfloor>t\<rfloor>
      else if 1 / 2 < t - of_int \<lfloor>t\<rfloor> then \<lfloor>t\<rfloor> + 1
      else if even \<lfloor>t\<rfloor> then \<lfloor>t\<rfloor> else \<lfloor>t\<rfloor> + 1)"

definition double_round :: "real \<Rightarrow> real" where
  "double_round x =
     (if x = 0 then 0
      else sgn x *
        (of_int (round_even (\<bar>x\<bar> * 2 ^ 52 * 2 ^ double_count \<bar>x\<bar> / 2 ^ halve_count \<bar>x\<bar>))
           * 2 ^ halve_count \<bar>x\<bar> / (2 ^ 52 * 2 ^ double_count \<bar>x\<bar>)))"

text \<open>The binary exponent of a positive number.\<close>

definition binary_exponent :: "real \<Rightarrow> int" where
  "binary_exponent a = int (halve_count a) - int (double_count a)"

text \<open>
  One instance of the constants, on which the model is run on concrete inputs: the
  values of the SUNDIALS headers, with \<^verbatim>\<open>realtype\<close> the type \<^verbatim>\<open>double\<close> and
  \<^verbatim>\<open>UNIT_ROUNDOFF\<close> the double precision machine epsilon.
\<close>

definition sundials_consts :: ark_consts where
  "sundials_consts = \<lparr>
     UNIT_ROUNDOFF = 1 / 2 ^ 52,
     realtype_round = double_round,
     ARK_MEM_NULL = - 21,
     ARK_MEM_FAIL = - 20,
     ARK_ILL_INPUT = - 22,
     ARK_INVALID_TABLE = - 41,
     ARK_RHSFUNC_FAIL = - 8,
     ARK_UNREC_RHSFUNC_ERR = - 11,
     ARK_NLS_INIT_FAIL = - 29,
     ARK_NLS_SETUP_FAIL = - 30,
     ARK_NLS_SETUP_RECVR = - 31,
     ARK_LINIT_FAIL = - 5,
     ARK_INNERSTEP_FAIL = - 34,
     ARK_OUTERTOINNER_FAIL = - 35,
     ARK_INNERTOOUTER_FAIL = - 36,
     ARK_POSTPROCESS_STAGE_FAIL = - 38,
     ARK_USER_PREDICT_FAIL = - 39,
     ARK_VECTOROP_ERR = - 28,
     TRY_AGAIN = 5,
     MRISTAGE_ERK_FAST = 0,
     MRISTAGE_ERK_NOFAST = 1,
     MRISTAGE_DIRK_NOFAST = 2,
     MRISTAGE_DIRK_FAST = 3,
     ARK_FULLRHS_START = 0,
     ARK_FULLRHS_END = 1,
     ARK_FULLRHS_OTHER = 2,
     FIRST_INIT = 0,
     RESET_INIT = 1 \<rparr>"

subsection \<open>The coupling table\<close>

text \<open>
  \<^verbatim>\<open>struct MRIStepCouplingMem\<close>: \<^verbatim>\<open>G[k][i][j]\<close> is \<open>MRIC_G ! k ! i ! j\<close>,
  \<^verbatim>\<open>c[i]\<close> is \<open>MRIC_c ! i\<close>.
\<close>

record MRIStepCouplingMem =
  MRIC_nmat :: int
  MRIC_stages :: int
  MRIC_q :: int
  MRIC_p :: int
  MRIC_G :: "real list list list"
  MRIC_c :: "real list"

text \<open>
  \<^verbatim>\<open>mriStep_StageType\<close>: the accumulation loop over the \<^verbatim>\<open>nmat\<close> diagonal
  entries is a fold over the index list, each addition rounded.
\<close>

definition mriStep_StageType :: "ark_consts \<Rightarrow> MRIStepCouplingMem \<Rightarrow> int \<Rightarrow> int" where
  "mriStep_StageType K MRIC is =
     (let tol = 100 * UNIT_ROUNDOFF K in
      if is < 1 \<or> is \<ge> MRIC_stages MRIC then ARK_INVALID_TABLE K
      else
        let Gabs = fold (\<lambda>i Gabs. realtype_add K Gabs \<bar>MRIC_G MRIC ! i ! nat is ! nat is\<bar>)
                     [0..<nat (MRIC_nmat MRIC)] 0;
            cdiff = realtype_sub K (MRIC_c MRIC ! nat is) (MRIC_c MRIC ! nat (is - 1))
        in if Gabs > tol
           then (if cdiff > tol then MRISTAGE_DIRK_FAST K else MRISTAGE_DIRK_NOFAST K)
           else (if cdiff > tol then MRISTAGE_ERK_FAST K else MRISTAGE_ERK_NOFAST K))"

text \<open>
  \<^verbatim>\<open>mriStep_RKCoeffs\<close> returns its flag and the array \<^verbatim>\<open>Arow\<close> as it leaves it.
  In \<^verbatim>\<open>kconst = ONE/(k+ONE)\<close> the integer \<open>k\<close> is converted to \<^verbatim>\<open>realtype\<close>, and
  the sum and the quotient are rounded; in \<^verbatim>\<open>Arow[j] += G[k][is][j]*kconst\<close> the
  product and the sum are.
\<close>

definition mriStep_RKCoeffs ::
  "ark_consts \<Rightarrow> MRIStepCouplingMem \<Rightarrow> int \<Rightarrow> real list \<Rightarrow> int \<times> real list" where
  "mriStep_RKCoeffs K MRIC is Arow =
     (if is < 1 \<or> is \<ge> MRIC_stages MRIC \<or> Arow = [] then (ARK_INVALID_TABLE K, Arow)
      else
        let A0 = fold (\<lambda>j A. A[j := 0]) [0..<nat (MRIC_stages MRIC)] Arow;
            A1 = fold (\<lambda>k A.
                   let kconst = realtype_div K 1 (realtype_add K (real k) 1)
                   in fold (\<lambda>j A.
                         A[j := realtype_add K (A ! j)
                                  (realtype_mul K (MRIC_G MRIC ! k ! nat is ! j) kconst)])
                        [0..<Suc (nat is)] A)
                   [0..<nat (MRIC_nmat MRIC)] A0
        in (ARK_SUCCESS, A1))"

subsection \<open>Driver memory, callbacks and the call log\<close>

text \<open>
  Every call that the routines of a step and of the full right-hand side make to code
  outside this file (a user callback, an operation of the inner stepper, the nonlinear
  solver, a predictor of the host) is recorded, with its arguments and the flag it
  returned, in a log carried by the state. A call of the slow right-hand side is
  logged as \<open>Call_fs\<close> when a function of this file makes it and as \<open>Call_fs_nls\<close>
  when it is made for the nonlinear solver. The log is the only addition to the C
  state; no function of the model reads it, and host routines receive the state with
  the log erased.
\<close>

datatype 'v call =
    Call_fs real 'v int
  | Call_fs_nls real 'v int
  | Call_ProcessStage real 'v int
  | Call_pre_inner_evolve real "'v list" int int
  | Call_post_inner_evolve real 'v int
  | Call_stage_predict real 'v int
  | Call_evolve real real "'v list" real real 'v int
  | Call_fullrhs real 'v int int
  | Call_reset real 'v int
  | Call_NLS_setup int
  | Call_Nls nat int
  | Call_arkPredict_MaximumOrder real int
  | Call_arkPredict_VariableOrder real int
  | Call_arkPredict_CutoffOrder real int
  | Call_arkPredict_Bootstrap real real int

datatype ARKEwtFn = arkEwtSetSmallReal | efun_other

text \<open>
  The fields of \<^verbatim>\<open>struct ARKodeMemRec\<close> (prefix \<open>ark_\<close>), of
  \<^verbatim>\<open>struct ARKodeMRIStepMemRec\<close> (prefix \<open>step_\<close>) and of
  \<^verbatim>\<open>struct _MRIStepInnerStepper\<close> (prefix \<open>stepper_\<close>) that the functions below
  read or write, in one record: the three structures are reached from each other by
  pointers and always travel together. A pointer to a solver, to the interpolation
  module or to a linear solver routine is a flag that tells whether it is set.
  \<open>ark_user_data\<close> stands for all memory owned by code outside this file (the user's
  data, the content of the inner stepper, the memory of the nonlinear solver and of
  the interpolation module). The handles \<^verbatim>\<open>arkode_mem\<close>, \<^verbatim>\<open>step_mem\<close>,
  \<^verbatim>\<open>stepper\<close> and \<^verbatim>\<open>stepper->ops\<close> are taken to be set, so the \<^verbatim>\<open>NULL\<close>
  tests on them always pass; the diagnostic \<^verbatim>\<open>fprintf\<close> calls and the texts given to
  \<^verbatim>\<open>arkProcessError\<close> are left out.
\<close>

record ('v, 'w) ARKodeMem =
  ark_tn :: real
  ark_h :: real
  ark_hold :: real
  ark_tcur :: real
  ark_ycur :: 'v
  ark_yn :: 'v
  ark_tempv2 :: 'v
  ark_tempv3 :: 'v
  ark_fixedstep :: bool
  ark_initsetup :: bool
  ark_firststage :: bool
  ark_interp :: bool
  ark_user_efun :: bool
  ark_efun :: ARKEwtFn
  ark_call_fullrhs :: bool
  ark_liw :: int
  ark_lrw :: int
  ark_user_data :: 'w
  step_MRIC :: "MRIStepCouplingMem option"
  step_stages :: int
  step_q :: int
  step_p :: int
  step_stagetypes :: "int list"
  step_rkcoeffs :: "real list"
  step_F :: "'v list"
  step_sdata :: 'v
  step_zpred :: 'v
  step_zcor :: 'v
  step_cvals :: "real list"
  step_Xvecs :: "'v list"
  step_istage :: int
  step_gamma :: real
  step_gammap :: real
  step_gamrat :: real
  step_implicit :: bool
  step_predictor :: int
  step_nfs :: int
  step_NLS :: bool
  step_ownNLS :: bool
  step_linit :: bool
  step_lsetup :: bool
  step_lsolve :: bool
  step_lfree :: bool
  step_lmem :: bool
  stepper_tshift :: real
  stepper_tscale :: real
  stepper_forcing :: "'v list"
  stepper_nforcing :: int
  stepper_vecs :: "'v list"
  stepper_vals :: "real list"
  stepper_last_flag :: int
  trace :: "'v call list"

text \<open>
  A run of the nonlinear solver, as the driver sees it: the solver either returns,
  with its flag, the correction \<open>zcor\<close> it has reached and the outside memory as it
  leaves it; or it asks for the slow right-hand side at the state \<open>zpred + zcor\<close> for
  a correction \<open>zcor\<close> of its choice, and goes on from the flag, the vector and the
  outside memory that the evaluation yields. Every run is finite.
\<close>

datatype ('v, 'w) nls_run =
    Nls_return int 'v 'w
  | Nls_evaluate 'v 'w "int \<times> 'v \<times> 'w \<Rightarrow> ('v, 'w) nls_run"

text \<open>
  The code outside this file. A user callback maps its arguments and the outside
  memory to its flag, the vector it writes and the new outside memory; a function
  pointer that may be \<^verbatim>\<open>NULL\<close> is an option. The inner stepper's \<^verbatim>\<open>evolve\<close> sees
  the forcing data of the stepper (\<open>tshift\<close>, \<open>tscale\<close>, \<open>forcing\<close>), which is what
  \<^verbatim>\<open>MRIStepInnerStepper_GetForcingData\<close> hands out. Host routines take the driver
  memory itself.
\<close>

record ('v, 'w) ark_env =
  fs :: "real \<Rightarrow> 'v \<Rightarrow> 'w \<Rightarrow> int \<times> 'v \<times> 'w"
  ProcessStage :: "(real \<Rightarrow> 'v \<Rightarrow> 'w \<Rightarrow> int \<times> 'v \<times> 'w) option"
  pre_inner_evolve :: "(real \<Rightarrow> 'v list \<Rightarrow> int \<Rightarrow> 'w \<Rightarrow> int \<times> 'v list \<times> 'w) option"
  post_inner_evolve :: "(real \<Rightarrow> 'v \<Rightarrow> 'w \<Rightarrow> int \<times> 'v \<times> 'w) option"
  stage_predict :: "(real \<Rightarrow> 'v \<Rightarrow> 'w \<Rightarrow> int \<times> 'v \<times> 'w) option"
  ops_evolve :: "(real \<Rightarrow> real \<Rightarrow> 'v list \<Rightarrow> real \<Rightarrow> real \<Rightarrow> 'v \<Rightarrow> 'w \<Rightarrow> int \<times> 'v \<times> 'w) option"
  ops_fullrhs :: "(real \<Rightarrow> 'v \<Rightarrow> int \<Rightarrow> 'w \<Rightarrow> int \<times> 'v \<times> 'w) option"
  ops_reset :: "(real \<Rightarrow> 'v \<Rightarrow> 'w \<Rightarrow> int \<times> 'w) option"
  NLS_ops_setup :: "(('v, 'w) ARKodeMem \<Rightarrow> int \<times> 'w) option"
  nls_solve :: "('v, 'w) ARKodeMem \<Rightarrow> int \<Rightarrow> ('v, 'w) nls_run"
  arkPredict_MaximumOrder :: "('v, 'w) ARKodeMem \<Rightarrow> real \<Rightarrow> int \<times> 'v"
  arkPredict_VariableOrder :: "('v, 'w) ARKodeMem \<Rightarrow> real \<Rightarrow> int \<times> 'v"
  arkPredict_CutoffOrder :: "('v, 'w) ARKodeMem \<Rightarrow> real \<Rightarrow> int \<times> 'v"
  arkPredict_Bootstrap ::
    "('v, 'w) ARKodeMem \<Rightarrow> real \<Rightarrow> real \<Rightarrow> int \<Rightarrow> real list \<Rightarrow> 'v list \<Rightarrow> int \<times> 'v"
  MRIStepCoupling_LoadTable_DEFAULT_EXPL_MRI_TABLE_3 :: "MRIStepCouplingMem option"
  MRIStepCoupling_Space :: "MRIStepCouplingMem \<Rightarrow> int \<times> int"
  arkAllocVec :: "'w \<Rightarrow> bool \<times> 'w"
  arkAllocVecArray :: "'w \<Rightarrow> bool \<times> 'w"
  calloc_ok :: "'w \<Rightarrow> bool \<times> 'w"
  arkInterpSetDegree :: "('v, 'w) ARKodeMem \<Rightarrow> int \<Rightarrow> int \<times> 'w"
  linit :: "('v, 'w) ARKodeMem \<Rightarrow> int \<times> 'w"
  mriStep_NlsInit :: "('v, 'w) ARKodeMem \<Rightarrow> int \<times> 'w"

definition hide_trace :: "('v, 'w) ARKodeMem \<Rightarrow> ('v, 'w) ARKodeMem" where
  "hide_trace s = s\<lparr>trace := []\<rparr>"

definition log_call :: "'v call \<Rightarrow> ('v, 'w) ARKodeMem \<Rightarrow> ('v, 'w) ARKodeMem" where
  "log_call e s = s\<lparr>trace := trace s @ [e]\<rparr>"

subsection \<open>Vector kernels\<close>

text \<open>
  The \<^verbatim>\<open>N_Vector\<close> kernels belong to the vector module, outside this file. They are
  modelled by their contract on a real vector space: \<^verbatim>\<open>N_VLinearSum(a,x,b,y,z)\<close> sets
  \<open>z = a x + b y\<close>, \<^verbatim>\<open>N_VScale(c,x,z)\<close> sets \<open>z = c x\<close>, and
  \<^verbatim>\<open>N_VLinearCombination(nvec,c,X,z)\<close> sets \<open>z\<close> to the sum of the \<open>c[i] X[i]\<close> for
  \<open>i < nvec\<close> and returns the flag \<open>0\<close>. \<^verbatim>\<open>N_VConst\<close> is only ever called with
  the constant zero, which yields the zero vector.
\<close>

definition N_VLinearSum :: "real \<Rightarrow> 'v \<Rightarrow> real \<Rightarrow> 'v \<Rightarrow> 'v::real_vector" where
  "N_VLinearSum a x b y = a *\<^sub>R x + b *\<^sub>R y"

definition N_VScale :: "real \<Rightarrow> 'v \<Rightarrow> 'v::real_vector" where
  "N_VScale c x = c *\<^sub>R x"

definition N_VLinearCombination :: "int \<Rightarrow> real list \<Rightarrow> 'v list \<Rightarrow> int \<times> 'v::real_vector" where
  "N_VLinearCombination nvec c X =
     (0, fold (\<lambda>i z. z + (c ! i) *\<^sub>R (X ! i)) [0..<nat nvec] 0)"

subsection \<open>Operations of the inner stepper\<close>

definition mriStepInnerStepper_Evolve ::
  "ark_consts \<Rightarrow> ('v, 'w) ark_env \<Rightarrow> real \<Rightarrow> real \<Rightarrow> 'v \<Rightarrow> ('v, 'w) ARKodeMem
     \<Rightarrow> int \<times> 'v \<times> ('v, 'w) ARKodeMem" where
  "mriStepInnerStepper_Evolve K E t0 tout y s =
     (case ops_evolve E of
        None \<Rightarrow> (ARK_ILL_INPUT K, y, s)
      | Some evolve \<Rightarrow>
          let (flag, y', w) = evolve (stepper_tshift s) (stepper_tscale s) (stepper_forcing s)
                                t0 tout y (ark_user_data s);
              s' = log_call (Call_evolve (stepper_tshift s) (stepper_tscale s)
                               (stepper_forcing s) t0 tout y flag)
                     (s\<lparr>ark_user_data := w, stepper_last_flag := flag\<rparr>)
          in (flag, y', s'))"

definition mriStepInnerStepper_FullRhs ::
  "ark_consts \<Rightarrow> ('v, 'w) ark_env \<Rightarrow> real \<Rightarrow> 'v \<Rightarrow> 'v \<Rightarrow> int \<Rightarrow> ('v, 'w) ARKodeMem
     \<Rightarrow> int \<times> 'v \<times> ('v, 'w) ARKodeMem" where
  "mriStepInnerStepper_FullRhs K E t y f mode s =
     (case ops_fullrhs E of
        None \<Rightarrow> (ARK_ILL_INPUT K, f, s)
      | Some fullrhs \<Rightarrow>
          let (flag, f', w) = fullrhs t y mode (ark_user_data s);
              s' = log_call (Call_fullrhs t y mode flag)
                     (s\<lparr>ark_user_data := w, stepper_last_flag := flag\<rparr>)
          in (flag, f', s'))"

definition mriStepInnerStepper_Reset ::
  "ark_consts \<Rightarrow> ('v, 'w) ark_env \<Rightarrow> real \<Rightarrow> 'v \<Rightarrow> ('v, 'w) ARKodeMem
     \<Rightarrow> int \<times> ('v, 'w) ARKodeMem" where
  "mriStepInnerStepper_Reset K E tR yR s =
     (case ops_reset E of
        Some reset \<Rightarrow>
          let (flag, w) = reset tR yR (ark_user_data s);
              s' = log_call (Call_reset tR yR flag)
                     (s\<lparr>ark_user_data := w, stepper_last_flag := flag\<rparr>)
          in (flag, s')
      | None \<Rightarrow> (ARK_SUCCESS, s))"

subsection \<open>The slow right-hand side\<close>

text \<open>
  A call of \<^verbatim>\<open>step_mem->fs(t, y, ydot, user_data)\<close>: the flag, the vector written to
  \<open>ydot\<close>, and the state with the call logged.
\<close>

definition call_fs ::
  "('v, 'w) ark_env \<Rightarrow> real \<Rightarrow> 'v \<Rightarrow> ('v, 'w) ARKodeMem \<Rightarrow> int \<times> 'v \<times> ('v, 'w) ARKodeMem" where
  "call_fs E t y s =
     (let (retval, ydot, w) = fs E t y (ark_user_data s)
      in (retval, ydot, log_call (Call_fs t y retval) (s\<lparr>ark_user_data := w\<rparr>)))"

text \<open>
  \<^verbatim>\<open>mriStep_FullRHS\<close> returns its flag, the output vector \<open>f\<close> and the state. The
  \<^verbatim>\<open>switch\<close> on \<open>mode\<close> is the cascade of its three cases and the default.
\<close>

definition mriStep_FullRHS ::
  "ark_consts \<Rightarrow> ('v::real_vector, 'w) ark_env \<Rightarrow> real \<Rightarrow> 'v \<Rightarrow> 'v \<Rightarrow> int \<Rightarrow> ('v, 'w) ARKodeMem
     \<Rightarrow> int \<times> 'v \<times> ('v, 'w) ARKodeMem" where
  "mriStep_FullRHS K E t y f mode s =
     (if mode = ARK_FULLRHS_START K then
        let (retval, ydot, s1) = call_fs E t y s;
            s2 = s1\<lparr>step_F := (step_F s1)[0 := ydot], step_nfs := step_nfs s1 + 1\<rparr>
        in if retval \<noteq> 0 then (ARK_RHSFUNC_FAIL K, f, s2)
           else
             let (retval, f1, s3) = mriStepInnerStepper_FullRhs K E t y f (ARK_FULLRHS_OTHER K) s2
             in if retval \<noteq> ARK_SUCCESS then (ARK_RHSFUNC_FAIL K, f1, s3)
                else (ARK_SUCCESS, N_VLinearSum 1 (step_F s3 ! 0) 1 f1, s3)
      else if mode = ARK_FULLRHS_END K then
        let (retval, ydot, s1) = call_fs E t y s;
            s2 = s1\<lparr>step_F := (step_F s1)[0 := ydot], step_nfs := step_nfs s1 + 1\<rparr>
        in if retval \<noteq> 0 then (ARK_RHSFUNC_FAIL K, f, s2)
           else
             let (retval, f1, s3) = mriStepInnerStepper_FullRhs K E t y f (ARK_FULLRHS_OTHER K) s2
             in if retval \<noteq> ARK_SUCCESS then (ARK_RHSFUNC_FAIL K, f1, s3)
                else (ARK_SUCCESS, N_VLinearSum 1 (step_F s3 ! 0) 1 f1, s3)
      else if mode = ARK_FULLRHS_OTHER K then
        let (retval, ydot, s1) = call_fs E t y s;
            s2 = s1\<lparr>ark_tempv2 := ydot, step_nfs := step_nfs s1 + 1\<rparr>
        in if retval \<noteq> 0 then (ARK_RHSFUNC_FAIL K, f, s2)
           else
             let (retval, f1, s3) = mriStepInnerStepper_FullRhs K E t y f (ARK_FULLRHS_OTHER K) s2
             in if retval \<noteq> ARK_SUCCESS then (ARK_RHSFUNC_FAIL K, f1, s3)
                else (ARK_SUCCESS, N_VLinearSum 1 (ark_tempv2 s3) 1 f1, s3)
      else (ARK_RHSFUNC_FAIL K, f, s))"

subsection \<open>Validation of the coupling table\<close>

text \<open>
  The blocks of \<^verbatim>\<open>mriStep_CheckCoupling\<close>, each named after the comment that heads
  it in the source. An accumulation loop is a fold over its index list, each addition
  rounded; a loop that clears the flag \<open>okay\<close> is a fold on the flag. The tolerance
  \<open>100 * UNIT_ROUNDOFF\<close> is a power of two times a hundred, and the difference
  \<open>1 - c[stages-1]\<close> of the last test is either computed exactly (for an abscissa
  between \<open>1/2\<close> and \<open>2\<close>) or at least \<open>1/2\<close> in absolute value; both are written
  without rounding.
\<close>

definition CheckCoupling_lower_triangular_Gabs ::
  "ark_consts \<Rightarrow> ('v, 'w) ARKodeMem \<Rightarrow> real" where
  "CheckCoupling_lower_triangular_Gabs K s =
     fold (\<lambda>k Gabs.
        fold (\<lambda>i Gabs.
           fold (\<lambda>j Gabs. realtype_add K Gabs \<bar>MRIC_G (the (step_MRIC s)) ! k ! i ! j\<bar>)
             [i + 1..<nat (step_stages s)] Gabs)
          [0..<nat (step_stages s)] Gabs)
       [0..<nat (MRIC_nmat (the (step_MRIC s)))] 0"

definition CheckCoupling_no_DIRK_FAST :: "ark_consts \<Rightarrow> ('v, 'w) ARKodeMem \<Rightarrow> bool" where
  "CheckCoupling_no_DIRK_FAST K s =
     fold (\<lambda>i okay.
        if mriStep_StageType K (the (step_MRIC s)) (int i) = MRISTAGE_DIRK_FAST K
        then False else okay)
       [0..<nat (step_stages s)] True"

definition CheckCoupling_sorted :: "ark_consts \<Rightarrow> ('v, 'w) ARKodeMem \<Rightarrow> bool" where
  "CheckCoupling_sorted K s =
     fold (\<lambda>i okay.
        if realtype_sub K (MRIC_c (the (step_MRIC s)) ! i) (MRIC_c (the (step_MRIC s)) ! (i - 1))
             < - (100 * UNIT_ROUNDOFF K)
        then False else okay)
       [1..<nat (step_stages s)] True"

definition CheckCoupling_first_stage_Gabs :: "ark_consts \<Rightarrow> ('v, 'w) ARKodeMem \<Rightarrow> real" where
  "CheckCoupling_first_stage_Gabs K s =
     fold (\<lambda>k Gabs.
        fold (\<lambda>j Gabs. realtype_add K Gabs \<bar>MRIC_G (the (step_MRIC s)) ! k ! 0 ! j\<bar>)
          [0..<nat (step_stages s)] Gabs)
       [0..<nat (MRIC_nmat (the (step_MRIC s)))] \<bar>MRIC_c (the (step_MRIC s)) ! 0\<bar>"

definition mriStep_CheckCoupling :: "ark_consts \<Rightarrow> ('v, 'w) ARKodeMem \<Rightarrow> int" where
  "mriStep_CheckCoupling K s =
     (let tol = 100 * UNIT_ROUNDOFF K in
      if step_stages s < 1 then ARK_INVALID_TABLE K
      else if step_q s < 1 then ARK_INVALID_TABLE K
      else if step_p s < 1 \<and> \<not> ark_fixedstep s then ARK_INVALID_TABLE K
      else if CheckCoupling_lower_triangular_Gabs K s > tol then ARK_INVALID_TABLE K
      else if \<not> CheckCoupling_no_DIRK_FAST K s then ARK_INVALID_TABLE K
      else if \<not> CheckCoupling_sorted K s then ARK_INVALID_TABLE K
      else if CheckCoupling_first_stage_Gabs K s > tol then ARK_INVALID_TABLE K
      else if \<bar>1 - MRIC_c (the (step_MRIC s)) ! nat (step_stages s - 1)\<bar> > tol
        then ARK_INVALID_TABLE K
      else ARK_SUCCESS)"

subsection \<open>The stage routines\<close>

text \<open>
  \<^verbatim>\<open>mriStep_ComputeInnerForcing\<close>: the loop over the \<^verbatim>\<open>nmat\<close> forcing vectors leaves
  at the first failing vector operation, so it is a recursion on the list of the
  indices still to do.
\<close>

fun ComputeInnerForcing_loop ::
  "ark_consts \<Rightarrow> int \<Rightarrow> real \<Rightarrow> nat list \<Rightarrow> ('v::real_vector, 'w) ARKodeMem
     \<Rightarrow> int \<times> ('v, 'w) ARKodeMem" where
  "ComputeInnerForcing_loop K i rcdiff [] s = (ARK_SUCCESS, s)"
| "ComputeInnerForcing_loop K i rcdiff (k # ks) s =
     (let cvals = fold (\<lambda>j cvals.
                     cvals[j := rcdiff * MRIC_G (the (step_MRIC s)) ! k ! nat i ! j])
                    [0..<nat i] (step_cvals s);
          (retval, z) = N_VLinearCombination i cvals (step_Xvecs s);
          s' = s\<lparr>step_cvals := cvals, stepper_forcing := (stepper_forcing s)[k := z]\<rparr>
      in if retval \<noteq> 0 then (ARK_VECTOROP_ERR K, s')
         else ComputeInnerForcing_loop K i rcdiff ks s')"

definition mriStep_ComputeInnerForcing ::
  "ark_consts \<Rightarrow> int \<Rightarrow> real \<Rightarrow> ('v::real_vector, 'w) ARKodeMem \<Rightarrow> int \<times> ('v, 'w) ARKodeMem" where
  "mriStep_ComputeInnerForcing K i cdiff s =
     (let rcdiff = 1 / cdiff;
          nvec = MRIC_nmat (the (step_MRIC s));
          s1 = s\<lparr>step_Xvecs := fold (\<lambda>j Xvecs. Xvecs[j := step_F s ! j]) [0..<nat i]
                                  (step_Xvecs s)\<rparr>
      in ComputeInnerForcing_loop K i rcdiff [0..<nat nvec] s1)"

text \<open>
  \<^verbatim>\<open>mriStep_StageERKFast\<close>, in two parts: up to the time normalization constants,
  and from the \<^verbatim>\<open>pre_inner_evolve\<close> callback on.
\<close>

definition StageERKFast_evolve ::
  "ark_consts \<Rightarrow> ('v, 'w) ark_env \<Rightarrow> real \<Rightarrow> ('v, 'w) ARKodeMem \<Rightarrow> int \<times> ('v, 'w) ARKodeMem" where
  "StageERKFast_evolve K E t0 s =
     (let (retval, s1) =
            (case pre_inner_evolve E of
               None \<Rightarrow> (0, s)
             | Some pre \<Rightarrow>
                 let (retval, forcing, w) =
                       pre t0 (stepper_forcing s) (stepper_nforcing s) (ark_user_data s)
                 in (retval,
                     log_call (Call_pre_inner_evolve t0 (stepper_forcing s) (stepper_nforcing s)
                                 retval)
                       (s\<lparr>stepper_forcing := forcing, ark_user_data := w\<rparr>)))
      in if retval \<noteq> 0 then (ARK_OUTERTOINNER_FAIL K, s1)
         else
           let (retval, y, s2) = mriStepInnerStepper_Evolve K E t0 (ark_tcur s1) (ark_ycur s1) s1;
               s3 = s2\<lparr>ark_ycur := y\<rparr>
           in if retval < 0 then (ARK_INNERSTEP_FAIL K, s3)
              else
                (case post_inner_evolve E of
                   None \<Rightarrow> (ARK_SUCCESS, s3)
                 | Some post \<Rightarrow>
                     let (retval, y, w) = post (ark_tcur s3) (ark_ycur s3) (ark_user_data s3);
                         s4 = log_call (Call_post_inner_evolve (ark_tcur s3) (ark_ycur s3) retval)
                                (s3\<lparr>ark_ycur := y, ark_user_data := w\<rparr>)
                     in if retval \<noteq> 0 then (ARK_INNERTOOUTER_FAIL K, s4)
                        else (ARK_SUCCESS, s4)))"

definition mriStep_StageERKFast ::
  "ark_consts \<Rightarrow> ('v::real_vector, 'w) ark_env \<Rightarrow> int \<Rightarrow> ('v, 'w) ARKodeMem
     \<Rightarrow> int \<times> ('v, 'w) ARKodeMem" where
  "mriStep_StageERKFast K E is s =
     (let t0 = ark_tn s + MRIC_c (the (step_MRIC s)) ! nat (is - 1) * ark_h s;
          cdiff = MRIC_c (the (step_MRIC s)) ! nat is - MRIC_c (the (step_MRIC s)) ! nat (is - 1);
          (retval, s1) = mriStep_ComputeInnerForcing K is cdiff s
      in if retval \<noteq> ARK_SUCCESS then (retval, s1)
         else StageERKFast_evolve K E t0
                (s1\<lparr>stepper_tshift := t0, stepper_tscale := cdiff * ark_h s1\<rparr>))"

definition mriStep_StageERKNoFast ::
  "ark_consts \<Rightarrow> int \<Rightarrow> ('v::real_vector, 'w) ARKodeMem \<Rightarrow> int \<times> ('v, 'w) ARKodeMem" where
  "mriStep_StageERKNoFast K is s =
     (let (retval, Arow) = mriStep_RKCoeffs K (the (step_MRIC s)) is (step_rkcoeffs s);
          s1 = s\<lparr>step_rkcoeffs := Arow\<rparr>
      in if retval \<noteq> ARK_SUCCESS then (retval, s1)
         else
           let (cvals, Xvecs) =
                 fold (\<lambda>j (cvals, Xvecs).
                          (cvals[j + 1 := step_rkcoeffs s1 ! j * ark_h s1],
                           Xvecs[j + 1 := step_F s1 ! j]))
                   [0..<nat is] ((step_cvals s1)[0 := 1], (step_Xvecs s1)[0 := ark_ycur s1]);
               (retval, z) = N_VLinearCombination (is + 1) cvals Xvecs;
               s2 = s1\<lparr>step_cvals := cvals, step_Xvecs := Xvecs, ark_ycur := z\<rparr>
           in if retval \<noteq> 0 then (ARK_VECTOROP_ERR K, s2) else (ARK_SUCCESS, s2))"

definition mriStep_StageDIRKFast ::
  "ark_consts \<Rightarrow> int \<Rightarrow> int \<Rightarrow> ('v, 'w) ARKodeMem \<Rightarrow> int \<times> int \<times> ('v, 'w) ARKodeMem" where
  "mriStep_StageDIRKFast K is nflag s = (ARK_INVALID_TABLE K, nflag, s)"

text \<open>
  \<^verbatim>\<open>mriStep_Predict\<close> returns its flag, the vector \<open>yguess\<close> and the state. A
  predictor of the host that answers \<^verbatim>\<open>ARK_ILL_INPUT\<close> falls through to the trivial
  predictor at the end of the function.
\<close>

definition Predict_bootstrap_jstage :: "('v, 'w) ARKodeMem \<Rightarrow> int \<Rightarrow> int" where
  "Predict_bootstrap_jstage s istage =
     (let c = MRIC_c (the (step_MRIC s));
          jstage = fold (\<lambda>i jstage. if c ! i \<noteq> 0 then int i else jstage) [0..<nat istage] (- 1)
      in if jstage = - 1 then - 1
         else fold (\<lambda>i jstage. if c ! i > c ! nat jstage \<and> c ! i \<noteq> 0 then int i else jstage)
                [0..<nat istage] jstage)"

definition mriStep_Predict ::
  "ark_consts \<Rightarrow> ('v::real_vector, 'w) ark_env \<Rightarrow> int \<Rightarrow> 'v \<Rightarrow> ('v, 'w) ARKodeMem
     \<Rightarrow> int \<times> 'v \<times> ('v, 'w) ARKodeMem" where
  "mriStep_Predict K E istage yguess s =
     (if \<not> ark_interp s \<and> step_predictor s > 0 then (ARK_MEM_NULL K, yguess, s)
      else if ark_initsetup s then (ARK_SUCCESS, N_VScale 1 (ark_yn s), s)
      else
        let tau = MRIC_c (the (step_MRIC s)) ! nat istage * ark_h s / ark_hold s in
        if step_predictor s = 1 then
          let (retval, yg) = arkPredict_MaximumOrder E (hide_trace s) tau;
              s1 = log_call (Call_arkPredict_MaximumOrder tau retval) s
          in if retval \<noteq> ARK_ILL_INPUT K then (retval, yg, s1)
             else (ARK_SUCCESS, N_VScale 1 (ark_yn s1), s1)
        else if step_predictor s = 2 then
          let (retval, yg) = arkPredict_VariableOrder E (hide_trace s) tau;
              s1 = log_call (Call_arkPredict_VariableOrder tau retval) s
          in if retval \<noteq> ARK_ILL_INPUT K then (retval, yg, s1)
             else (ARK_SUCCESS, N_VScale 1 (ark_yn s1), s1)
        else if step_predictor s = 3 then
          let (retval, yg) = arkPredict_CutoffOrder E (hide_trace s) tau;
              s1 = log_call (Call_arkPredict_CutoffOrder tau retval) s
          in if retval \<noteq> ARK_ILL_INPUT K then (retval, yg, s1)
             else (ARK_SUCCESS, N_VScale 1 (ark_yn s1), s1)
        else if step_predictor s = 4 then
          let jstage = Predict_bootstrap_jstage s istage in
          if jstage = - 1 then (ARK_SUCCESS, N_VScale 1 (ark_yn s), s)
          else
            let h = ark_h s * MRIC_c (the (step_MRIC s)) ! nat jstage;
                tau = ark_h s * MRIC_c (the (step_MRIC s)) ! nat istage;
                s1 = s\<lparr>step_cvals := (step_cvals s)[0 := 1],
                       step_Xvecs := (step_Xvecs s)[0 := step_F s ! nat jstage]\<rparr>;
                (retval, yg) = arkPredict_Bootstrap E (hide_trace s1) h tau 1
                                 (step_cvals s1) (step_Xvecs s1);
                s2 = log_call (Call_arkPredict_Bootstrap h tau retval) s1
            in if retval \<noteq> ARK_ILL_INPUT K then (retval, yg, s2)
               else (ARK_SUCCESS, N_VScale 1 (ark_yn s2), s2)
        else (ARK_SUCCESS, N_VScale 1 (ark_yn s), s))"

definition mriStep_StageSetup ::
  "ark_consts \<Rightarrow> ('v::real_vector, 'w) ARKodeMem \<Rightarrow> int \<times> ('v, 'w) ARKodeMem" where
  "mriStep_StageSetup K s =
     (let i = step_istage s;
          Ai = step_rkcoeffs s;
          s1 = (if step_implicit s then
                  let gamma = ark_h s * Ai ! nat i;
                      gammap = (if ark_firststage s then gamma else step_gammap s)
                  in s\<lparr>step_gamma := gamma, step_gammap := gammap,
                       step_gamrat := (if ark_firststage s then 1 else gamma / gammap)\<rparr>
                else s);
          (cvals, Xvecs) =
             fold (\<lambda>j (cvals, Xvecs). (cvals[j + 2 := ark_h s1 * Ai ! j], Xvecs[j + 2 := step_F s1 ! j]))
               [0..<nat i]
               ((step_cvals s1)[0 := 1, 1 := - 1],
                (step_Xvecs s1)[0 := ark_ycur s1, 1 := step_zpred s1]);
          nvec = i + 2;
          (retval, z) = N_VLinearCombination nvec cvals Xvecs;
          s2 = s1\<lparr>step_cvals := cvals, step_Xvecs := Xvecs, step_sdata := z\<rparr>
      in if retval \<noteq> 0 then (ARK_VECTOROP_ERR K, s2) else (ARK_SUCCESS, s2))"

text \<open>
  Modelled from the spec: \<^verbatim>\<open>mriStep_Nls\<close> lives in \<^verbatim>\<open>arkode_mristep_nls.c\<close>, which
  is not among the sources. The specification says that the nonlinear solver solves
  the stage equation \<open>zcor - gamma f\<^sub>s(tcur, zpred + zcor) = sdata\<close>, that the result is
  placed in \<open>ycur\<close>, that the state for a correction is \<open>zpred + zcor\<close>, and that the
  right-hand side evaluations made inside the solver are counted in \<open>nfs\<close>. So every
  evaluation that the solver asks for is a call of the callback \<^verbatim>\<open>fs\<close> at \<open>tcur\<close>
  and \<open>zpred + zcor\<close>, counted in \<open>nfs\<close>; when the solver returns, its correction is
  stored in \<open>zcor\<close>, and on success \<open>ycur\<close> is set to \<open>zpred + zcor\<close>.
  \<open>Nls_run\<close> answers the flag of the solver, the number of evaluations and the state.
\<close>

primrec Nls_run ::
  "('v::real_vector, 'w) ark_env \<Rightarrow> ('v, 'w) nls_run \<Rightarrow> ('v, 'w) ARKodeMem
     \<Rightarrow> int \<times> nat \<times> ('v, 'w) ARKodeMem" where
  "Nls_run E (Nls_return flag zcor w) s =
     (flag, 0,
      s\<lparr>step_zcor := zcor,
        ark_ycur := (if flag = ARK_SUCCESS then N_VLinearSum 1 (step_zpred s) 1 zcor
                     else ark_ycur s),
        ark_user_data := w\<rparr>)"
| "Nls_run E (Nls_evaluate zcor w continue) s =
     (let y = N_VLinearSum 1 (step_zpred s) 1 zcor;
          res = fs E (ark_tcur s) y w;
          s1 = log_call (Call_fs_nls (ark_tcur s) y (fst res))
                 (s\<lparr>step_nfs := step_nfs s + 1, ark_user_data := snd (snd res)\<rparr>);
          run = Nls_run E (continue res) s1
      in (fst run, Suc (fst (snd run)), snd (snd run)))"

definition mriStep_Nls ::
  "('v::real_vector, 'w) ark_env \<Rightarrow> int \<Rightarrow> ('v, 'w) ARKodeMem \<Rightarrow> int \<times> ('v, 'w) ARKodeMem" where
  "mriStep_Nls E nflag s =
     (let (flag, nfe, s1) = Nls_run E (nls_solve E (hide_trace s) nflag) s
      in (flag, log_call (Call_Nls nfe flag) s1))"

text \<open>
  \<^verbatim>\<open>mriStep_StageDIRKNoFast\<close>, in two parts: the prediction, and from the effective
  coefficients on. Both return the flag, the value left in \<^verbatim>\<open>*nflagPtr\<close> and the
  state.
\<close>

definition StageDIRKNoFast_solve ::
  "ark_consts \<Rightarrow> ('v::real_vector, 'w) ark_env \<Rightarrow> int \<Rightarrow> int \<Rightarrow> ('v, 'w) ARKodeMem
     \<Rightarrow> int \<times> int \<times> ('v, 'w) ARKodeMem" where
  "StageDIRKNoFast_solve K E is nflag s =
     (let (retval, Arow) = mriStep_RKCoeffs K (the (step_MRIC s)) is (step_rkcoeffs s);
          s1 = s\<lparr>step_rkcoeffs := Arow\<rparr>
      in if retval \<noteq> ARK_SUCCESS then (retval, nflag, s1)
         else
           let (retval, s2) = mriStep_StageSetup K s1
           in if retval \<noteq> ARK_SUCCESS then (retval, nflag, s2)
              else
                let (nflag', s3) = mriStep_Nls E nflag s2
                in if nflag' \<noteq> ARK_SUCCESS then (TRY_AGAIN K, nflag', s3)
                   else (ARK_SUCCESS, nflag', s3))"

definition mriStep_StageDIRKNoFast ::
  "ark_consts \<Rightarrow> ('v::real_vector, 'w) ark_env \<Rightarrow> int \<Rightarrow> int \<Rightarrow> ('v, 'w) ARKodeMem
     \<Rightarrow> int \<times> int \<times> ('v, 'w) ARKodeMem" where
  "mriStep_StageDIRKNoFast K E is nflag s =
     (let s0 = s\<lparr>step_istage := is\<rparr>;
          (retval, zpred, s1) = mriStep_Predict K E is (step_zpred s0) s0;
          s2 = s1\<lparr>step_zpred := zpred\<rparr>
      in if retval \<noteq> ARK_SUCCESS then (retval, nflag, s2)
         else
           (case stage_predict E of
              None \<Rightarrow> StageDIRKNoFast_solve K E is nflag s2
            | Some predict \<Rightarrow>
                let (retval, zpred, w) = predict (ark_tcur s2) (step_zpred s2) (ark_user_data s2);
                    s3 = log_call (Call_stage_predict (ark_tcur s2) (step_zpred s2) retval)
                           (s2\<lparr>step_zpred := zpred, ark_user_data := w\<rparr>)
                in if retval < 0 then (ARK_USER_PREDICT_FAIL K, nflag, s3)
                   else if retval > 0 then (TRY_AGAIN K, nflag, s3)
                   else StageDIRKNoFast_solve K E is nflag s3))"

subsection \<open>One step\<close>

text \<open>
  The body of the stage loop of \<^verbatim>\<open>mriStep_TakeStep\<close>, block by block. A block
  answers \<open>Some r\<close> when the function returns \<open>r\<close> from within it, and \<open>None\<close> when
  control passes to the next block. When no case of the \<^verbatim>\<open>switch\<close> on the stage type
  matches, \<open>retval\<close> keeps the value it has on entry to the loop body, which is zero on
  every path that reaches it.
\<close>

definition TakeStep_dispatch ::
  "ark_consts \<Rightarrow> ('v::real_vector, 'w) ark_env \<Rightarrow> int \<Rightarrow> int \<Rightarrow> ('v, 'w) ARKodeMem
     \<Rightarrow> int \<times> int \<times> ('v, 'w) ARKodeMem" where
  "TakeStep_dispatch K E is nflag s =
     (let stagetype = step_stagetypes s ! nat is in
      if stagetype = MRISTAGE_ERK_FAST K then
        let (retval, s') = mriStep_StageERKFast K E is s in (retval, nflag, s')
      else if stagetype = MRISTAGE_ERK_NOFAST K then
        let (retval, s') = mriStep_StageERKNoFast K is s in (retval, nflag, s')
      else if stagetype = MRISTAGE_DIRK_NOFAST K then mriStep_StageDIRKNoFast K E is nflag s
      else if stagetype = MRISTAGE_DIRK_FAST K then mriStep_StageDIRKFast K is nflag s
      else (0, nflag, s))"

definition TakeStep_postprocess ::
  "ark_consts \<Rightarrow> ('v, 'w) ark_env \<Rightarrow> ('v, 'w) ARKodeMem \<Rightarrow> int option \<times> ('v, 'w) ARKodeMem" where
  "TakeStep_postprocess K E s =
     (case ProcessStage E of
        None \<Rightarrow> (None, s)
      | Some process \<Rightarrow>
          let (retval, y, w) = process (ark_tcur s) (ark_ycur s) (ark_user_data s);
              s1 = log_call (Call_ProcessStage (ark_tcur s) (ark_ycur s) retval)
                     (s\<lparr>ark_ycur := y, ark_user_data := w\<rparr>)
          in if retval \<noteq> 0 then (Some (ARK_POSTPROCESS_STAGE_FAIL K), s1) else (None, s1))"

definition TakeStep_reset ::
  "ark_consts \<Rightarrow> ('v, 'w) ark_env \<Rightarrow> int \<Rightarrow> ('v, 'w) ARKodeMem
     \<Rightarrow> int option \<times> ('v, 'w) ARKodeMem" where
  "TakeStep_reset K E is s =
     (if step_stagetypes s ! nat is \<noteq> MRISTAGE_ERK_FAST K \<or> ProcessStage E \<noteq> None then
        let (retval, s1) = mriStepInnerStepper_Reset K E (ark_tcur s) (ark_ycur s) s
        in if retval \<noteq> ARK_SUCCESS then (Some (ARK_INNERSTEP_FAIL K), s1) else (None, s1)
      else (None, s))"

definition TakeStep_slow_rhs ::
  "ark_consts \<Rightarrow> ('v, 'w) ark_env \<Rightarrow> int \<Rightarrow> ('v, 'w) ARKodeMem
     \<Rightarrow> int option \<times> ('v, 'w) ARKodeMem" where
  "TakeStep_slow_rhs K E is s =
     (if is < step_stages s - 1 then
        let (retval, ydot, s1) = call_fs E (ark_tcur s) (ark_ycur s) s;
            s2 = s1\<lparr>step_F := (step_F s1)[nat is := ydot], step_nfs := step_nfs s1 + 1\<rparr>
        in if retval < 0 then (Some (ARK_RHSFUNC_FAIL K), s2)
           else if retval > 0 then (Some (ARK_UNREC_RHSFUNC_ERR K), s2)
           else (None, s2)
      else (None, s))"

definition TakeStep_stage ::
  "ark_consts \<Rightarrow> ('v::real_vector, 'w) ark_env \<Rightarrow> int \<Rightarrow> int \<Rightarrow> ('v, 'w) ARKodeMem
     \<Rightarrow> int option \<times> int \<times> ('v, 'w) ARKodeMem" where
  "TakeStep_stage K E is nflag s =
     (let s0 = s\<lparr>ark_tcur := ark_tn s + MRIC_c (the (step_MRIC s)) ! nat is * ark_h s\<rparr>;
          (retval, nflag1, s1) = TakeStep_dispatch K E is nflag s0
      in if retval \<noteq> ARK_SUCCESS then (Some retval, nflag1, s1)
         else
           (case TakeStep_postprocess K E s1 of
              (Some r, s2) \<Rightarrow> (Some r, nflag1, s2)
            | (None, s2) \<Rightarrow>
                (case TakeStep_reset K E is s2 of
                   (Some r, s3) \<Rightarrow> (Some r, nflag1, s3)
                 | (None, s3) \<Rightarrow>
                     (case TakeStep_slow_rhs K E is s3 of (r, s4) \<Rightarrow> (r, nflag1, s4)))))"

fun TakeStep_loop ::
  "ark_consts \<Rightarrow> ('v::real_vector, 'w) ark_env \<Rightarrow> nat list \<Rightarrow> int \<Rightarrow> ('v, 'w) ARKodeMem
     \<Rightarrow> int option \<times> int \<times> ('v, 'w) ARKodeMem" where
  "TakeStep_loop K E [] nflag s = (None, nflag, s)"
| "TakeStep_loop K E (is # rest) nflag s =
     (case TakeStep_stage K E (int is) nflag s of
        (Some r, nflag1, s1) \<Rightarrow> (Some r, nflag1, s1)
      | (None, nflag1, s1) \<Rightarrow> TakeStep_loop K E rest nflag1 s1)"

definition TakeStep_nls_setup ::
  "ark_consts \<Rightarrow> ('v::real_vector, 'w) ark_env \<Rightarrow> ('v, 'w) ARKodeMem
     \<Rightarrow> int option \<times> ('v, 'w) ARKodeMem" where
  "TakeStep_nls_setup K E s =
     (if step_NLS s then
        (case NLS_ops_setup E of
           None \<Rightarrow> (None, s)
         | Some setup \<Rightarrow>
             let s1 = s\<lparr>ark_tempv3 := 0\<rparr>;
                 (retval, w) = setup (hide_trace s1);
                 s2 = log_call (Call_NLS_setup retval) (s1\<lparr>ark_user_data := w\<rparr>)
             in if retval < 0 then (Some (ARK_NLS_SETUP_FAIL K), s2)
                else if retval > 0 then (Some (ARK_NLS_SETUP_RECVR K), s2)
                else (None, s2))
      else (None, s))"

text \<open>
  \<^verbatim>\<open>mriStep_TakeStep\<close> returns its flag, the values left in \<^verbatim>\<open>*dsmPtr\<close> and
  \<^verbatim>\<open>*nflagPtr\<close>, and the state. The stage loop runs over the indices from 1 up to
  \<open>stages - 1\<close>.
\<close>

definition mriStep_TakeStep ::
  "ark_consts \<Rightarrow> ('v::real_vector, 'w) ark_env \<Rightarrow> ('v, 'w) ARKodeMem
     \<Rightarrow> int \<times> real \<times> int \<times> ('v, 'w) ARKodeMem" where
  "mriStep_TakeStep K E s =
     (let nflag = ARK_SUCCESS;
          dsm = 0
      in case TakeStep_nls_setup K E s of
           (Some r, s1) \<Rightarrow> (r, dsm, nflag, s1)
         | (None, s1) \<Rightarrow>
             (case TakeStep_loop K E [1..<nat (step_stages s1)] nflag s1 of
                (Some r, nflag1, s2) \<Rightarrow> (r, dsm, nflag1, s2)
              | (None, nflag1, s2) \<Rightarrow> (ARK_SUCCESS, dsm, nflag1, s2)))"

subsection \<open>Initialization\<close>

text \<open>
  Allocation belongs to the host and to the C library: \<^verbatim>\<open>arkAllocVec\<close>,
  \<^verbatim>\<open>arkAllocVecArray\<close> and a \<^verbatim>\<open>calloc\<close> whose result the code tests answer
  whether they succeeded; a \<^verbatim>\<open>calloc\<close> whose result the code does not test is taken to
  succeed. A fresh array holds zeros.
\<close>

definition mriStep_SetCoupling ::
  "ark_consts \<Rightarrow> ('v, 'w) ark_env \<Rightarrow> ('v, 'w) ARKodeMem \<Rightarrow> int \<times> ('v, 'w) ARKodeMem" where
  "mriStep_SetCoupling K E s =
     (if step_MRIC s \<noteq> None then (ARK_SUCCESS, s)
      else
        (case MRIStepCoupling_LoadTable_DEFAULT_EXPL_MRI_TABLE_3 E of
           None \<Rightarrow> (ARK_INVALID_TABLE K, s)
         | Some MRIC \<Rightarrow>
             let (Cliw, Clrw) = MRIStepCoupling_Space E MRIC
             in (ARK_SUCCESS,
                 s\<lparr>step_MRIC := Some MRIC,
                   ark_liw := ark_liw s + Cliw, ark_lrw := ark_lrw s + Clrw,
                   step_stages := MRIC_stages MRIC, step_q := MRIC_q MRIC,
                   step_p := MRIC_p MRIC\<rparr>)))"

definition mriStepInnerStepper_FreeVecs ::
  "('v, 'w) ARKodeMem \<Rightarrow> int \<times> ('v, 'w) ARKodeMem" where
  "mriStepInnerStepper_FreeVecs s =
     (ARK_SUCCESS, s\<lparr>stepper_forcing := [], stepper_vecs := [], stepper_vals := []\<rparr>)"

definition mriStepInnerStepper_AllocVecs ::
  "ark_consts \<Rightarrow> ('v::real_vector, 'w) ark_env \<Rightarrow> int \<Rightarrow> ('v, 'w) ARKodeMem
     \<Rightarrow> int \<times> ('v, 'w) ARKodeMem" where
  "mriStepInnerStepper_AllocVecs K E count s =
     (let s1 = s\<lparr>stepper_nforcing := count\<rparr>;
          (ok, w) = arkAllocVecArray E (ark_user_data s1);
          s2 = s1\<lparr>ark_user_data := w\<rparr>
      in if \<not> ok then (ARK_MEM_FAIL K, snd (mriStepInnerStepper_FreeVecs s2))
         else
           let s3 = (if stepper_forcing s2 = []
                     then s2\<lparr>stepper_forcing := replicate (nat count) 0\<rparr> else s2);
               (ok, w) = (if stepper_vecs s3 = [] then calloc_ok E (ark_user_data s3)
                          else (True, ark_user_data s3));
               s4 = s3\<lparr>ark_user_data := w\<rparr>
           in if \<not> ok then (ARK_MEM_FAIL K, snd (mriStepInnerStepper_FreeVecs s4))
              else
                let s5 = (if stepper_vecs s4 = []
                          then s4\<lparr>stepper_vecs := replicate (nat (count + 1)) 0\<rparr> else s4);
                    (ok, w) = (if stepper_vals s5 = [] then calloc_ok E (ark_user_data s5)
                               else (True, ark_user_data s5));
                    s6 = s5\<lparr>ark_user_data := w\<rparr>
                in if \<not> ok then (ARK_MEM_FAIL K, snd (mriStepInnerStepper_FreeVecs s6))
                   else
                     (ARK_SUCCESS,
                      if stepper_vals s6 = []
                      then s6\<lparr>stepper_vals := replicate (nat (count + 1)) 0\<rparr> else s6))"

fun arkAllocVec_loop :: "('v, 'w) ark_env \<Rightarrow> nat list \<Rightarrow> 'w \<Rightarrow> bool \<times> 'w" where
  "arkAllocVec_loop E [] w = (True, w)"
| "arkAllocVec_loop E (j # js) w =
     (let (ok, w') = arkAllocVec E w
      in if \<not> ok then (False, w') else arkAllocVec_loop E js w')"

text \<open>
  The part of \<^verbatim>\<open>mriStep_Init\<close> that follows the check of the table, up to the end
  of the \<^verbatim>\<open>FIRST_INIT\<close> branch.
\<close>

definition Init_allocate ::
  "ark_consts \<Rightarrow> ('v::real_vector, 'w) ark_env \<Rightarrow> ('v, 'w) ARKodeMem
     \<Rightarrow> int option \<times> ('v, 'w) ARKodeMem" where
  "Init_allocate K E s =
     (let MRIC = the (step_MRIC s);
          n = nat (step_stages s);
          s1 = s\<lparr>step_q := MRIC_q MRIC, step_p := MRIC_p MRIC\<rparr>;
          s2 = (if step_stagetypes s1 \<noteq> []
                then s1\<lparr>step_stagetypes := [], ark_liw := ark_liw s1 - step_stages s1\<rparr> else s1);
          s3 = s2\<lparr>step_stagetypes :=
                    fold (\<lambda>j st. st[j := mriStep_StageType K MRIC (int j)]) [0..<n] (replicate n 0),
                  ark_liw := ark_liw s2 + step_stages s2\<rparr>;
          s4 = (if step_rkcoeffs s3 \<noteq> []
                then s3\<lparr>step_rkcoeffs := [], ark_lrw := ark_lrw s3 - step_stages s3\<rparr> else s3);
          s5 = s4\<lparr>step_rkcoeffs := fold (\<lambda>j A. A[j := 0]) [0..<n] (replicate n 0),
                  ark_lrw := ark_lrw s4 + step_stages s4\<rparr>;
          s6 = (if step_F s5 = [] then s5\<lparr>step_F := replicate n 0\<rparr> else s5);
          (ok, w) = arkAllocVec_loop E [0..<n] (ark_user_data s6);
          s7 = s6\<lparr>ark_user_data := w\<rparr>
      in if \<not> ok then (Some (ARK_MEM_FAIL K), s7)
         else
           let s8 = s7\<lparr>ark_liw := ark_liw s7 + step_stages s7\<rparr>;
               (ok, s9) =
                 (if step_implicit s8 then
                    let (ok, w) = arkAllocVec_loop E [0..<3] (ark_user_data s8)
                    in (ok, s8\<lparr>ark_user_data := w\<rparr>)
                  else
                    let s' = (if step_NLS s8 \<and> step_ownNLS s8
                              then s8\<lparr>step_NLS := False, step_ownNLS := False\<rparr> else s8)
                    in (True, s'\<lparr>step_linit := False, step_lsetup := False, step_lsolve := False,
                                 step_lfree := False, step_lmem := False\<rparr>))
           in if \<not> ok then (Some (ARK_MEM_FAIL K), s9)
              else
                let (ok, w) = (if step_cvals s9 = [] then calloc_ok E (ark_user_data s9)
                               else (True, ark_user_data s9));
                    s10 = s9\<lparr>ark_user_data := w\<rparr>
                in if \<not> ok then (Some (ARK_MEM_FAIL K), s10)
                   else
                     let s11 = (if step_cvals s10 = []
                                then s10\<lparr>step_cvals := replicate (nat (step_stages s10 + 1)) 0,
                                         ark_lrw := ark_lrw s10 + (step_stages s10 + 1)\<rparr>
                                else s10);
                         (ok, w) = (if step_Xvecs s11 = [] then calloc_ok E (ark_user_data s11)
                                    else (True, ark_user_data s11));
                         s12 = s11\<lparr>ark_user_data := w\<rparr>
                     in if \<not> ok then (Some (ARK_MEM_FAIL K), s12)
                        else
                          let s13 = (if step_Xvecs s12 = []
                                     then s12\<lparr>step_Xvecs := replicate (nat (step_stages s12 + 1)) 0,
                                              ark_liw := ark_liw s12 + (step_stages s12 + 1)\<rparr>
                                     else s12);
                              (retval, s14) = mriStepInnerStepper_AllocVecs K E (MRIC_nmat MRIC) s13
                          in if retval \<noteq> ARK_SUCCESS then (Some (ARK_MEM_FAIL K), s14)
                             else if ark_interp s14 then
                               let (retval, w) = arkInterpSetDegree E (hide_trace s14)
                                                   (- (step_q s14 - 1));
                                   s15 = s14\<lparr>ark_user_data := w\<rparr>
                               in if retval \<noteq> ARK_SUCCESS then (Some (ARK_ILL_INPUT K), s15)
                                  else (None, s15)
                             else (None, s14))"

text \<open>The \<^verbatim>\<open>FIRST_INIT\<close> branch of \<^verbatim>\<open>mriStep_Init\<close>.\<close>

definition Init_first ::
  "ark_consts \<Rightarrow> ('v::real_vector, 'w) ark_env \<Rightarrow> ('v, 'w) ARKodeMem
     \<Rightarrow> int option \<times> ('v, 'w) ARKodeMem" where
  "Init_first K E s =
     (let reset_efun = (if ark_user_efun s then False
                        else if step_implicit s then False else True);
          s1 = (if reset_efun
                then s\<lparr>ark_user_efun := False, ark_efun := arkEwtSetSmallReal\<rparr> else s)
      in if \<not> ark_fixedstep s1 then (Some (ARK_ILL_INPUT K), s1)
         else
           let (retval, s2) = mriStep_SetCoupling K E s1
           in if retval \<noteq> ARK_SUCCESS then (Some (ARK_ILL_INPUT K), s2)
              else
                let retval = mriStep_CheckCoupling K s2
                in if retval \<noteq> ARK_SUCCESS then (Some (ARK_ILL_INPUT K), s2)
                   else Init_allocate K E s2)"

text \<open>The end of \<^verbatim>\<open>mriStep_Init\<close>, common to all initialization types but the reset.\<close>

definition Init_solvers ::
  "ark_consts \<Rightarrow> ('v, 'w) ark_env \<Rightarrow> ('v, 'w) ARKodeMem \<Rightarrow> int \<times> ('v, 'w) ARKodeMem" where
  "Init_solvers K E s =
     (let (r, s1) =
            (if step_linit s then
               let (retval, w) = linit E (hide_trace s)
               in (retval, s\<lparr>ark_user_data := w\<rparr>)
             else (0, s))
      in if r \<noteq> 0 then (ARK_LINIT_FAIL K, s1)
         else
           let (r, s2) =
                 (if step_NLS s1 then
                    let (retval, w) = mriStep_NlsInit E (hide_trace s1)
                    in (retval, s1\<lparr>ark_user_data := w\<rparr>)
                  else (ARK_SUCCESS, s1))
           in if r \<noteq> ARK_SUCCESS then (ARK_NLS_INIT_FAIL K, s2)
              else (ARK_SUCCESS, s2\<lparr>ark_call_fullrhs := True\<rparr>))"

definition mriStep_Init ::
  "ark_consts \<Rightarrow> ('v::real_vector, 'w) ark_env \<Rightarrow> int \<Rightarrow> ('v, 'w) ARKodeMem
     \<Rightarrow> int \<times> ('v, 'w) ARKodeMem" where
  "mriStep_Init K E init_type s =
     (if init_type = RESET_INIT K then (ARK_SUCCESS, s)
      else
        (case (if init_type = FIRST_INIT K then Init_first K E s else (None, s)) of
           (Some r, s1) \<Rightarrow> (r, s1)
         | (None, s1) \<Rightarrow> Init_solvers K E s1))"

subsection \<open>A two-stage example\<close>

text \<open>
  The explicit midpoint rule as a multirate infinitesimal step method: three stages with
  abscissae \<open>0, 1/2, 1\<close>, both nontrivial stages explicit with fast evolution; a
  driver memory as initialization leaves it, on the one-dimensional vector space of
  the reals; and callbacks that count their calls in the outside memory. The nonlinear
  solver of the example evaluates the right-hand side once, at the predicted state, and
  returns the flag of that evaluation with the correction zero.
\<close>

definition demo_table :: MRIStepCouplingMem where
  "demo_table = \<lparr>MRIC_nmat = 1, MRIC_stages = 3, MRIC_q = 2, MRIC_p = 0,
     MRIC_G = [[[0, 0, 0], [1 / 2, 0, 0], [- (1 / 2), 1, 0]]], MRIC_c = [0, 1 / 2, 1]\<rparr>"

definition demo_mem :: "(real, nat) ARKodeMem" where
  "demo_mem = \<lparr>
     ark_tn = 0, ark_h = 1 / 10, ark_hold = 1 / 10, ark_tcur = 0, ark_ycur = 1, ark_yn = 1,
     ark_tempv2 = 0, ark_tempv3 = 0, ark_fixedstep = True, ark_initsetup = True,
     ark_firststage = True, ark_interp = True, ark_user_efun = False,
     ark_efun = arkEwtSetSmallReal, ark_call_fullrhs = True, ark_liw = 0, ark_lrw = 0,
     ark_user_data = 0,
     step_MRIC = Some demo_table, step_stages = 3, step_q = 2, step_p = 0,
     step_stagetypes = [- 41, 0, 0], step_rkcoeffs = [0, 0, 0], step_F = [2, 0, 0],
     step_sdata = 0, step_zpred = 0, step_zcor = 0,
     step_cvals = [0, 0, 0, 0], step_Xvecs = [0, 0, 0, 0], step_istage = 0,
     step_gamma = 0, step_gammap = 0, step_gamrat = 1, step_implicit = False,
     step_predictor = 0, step_nfs = 1, step_NLS = False, step_ownNLS = False,
     step_linit = False, step_lsetup = False, step_lsolve = False, step_lfree = False,
     step_lmem = False,
     stepper_tshift = 0, stepper_tscale = 1, stepper_forcing = [0], stepper_nforcing = 1,
     stepper_vecs = [0, 0], stepper_vals = [0, 0], stepper_last_flag = 0,
     trace = [] \<rparr>"

definition demo_env :: "(real, nat) ark_env" where
  "demo_env = \<lparr>
     fs = (\<lambda>t y w. (0, 2 * y, w + 1)),
     ProcessStage = None,
     pre_inner_evolve = None,
     post_inner_evolve = None,
     stage_predict = None,
     ops_evolve = Some (\<lambda>tshift tscale forcing t0 tout y w. (0, y + (tout - t0) * (forcing ! 0), w)),
     ops_fullrhs = Some (\<lambda>t y mode w. (0, 3 * y, w)),
     ops_reset = Some (\<lambda>t y w. (0, w)),
     NLS_ops_setup = None,
     nls_solve = (\<lambda>s nflag.
       Nls_evaluate 0 (ark_user_data s) (\<lambda>(flag, ydot, w). Nls_return flag 0 w)),
     arkPredict_MaximumOrder = (\<lambda>s tau. (0, ark_yn s)),
     arkPredict_VariableOrder = (\<lambda>s tau. (0, ark_yn s)),
     arkPredict_CutoffOrder = (\<lambda>s tau. (0, ark_yn s)),
     arkPredict_Bootstrap = (\<lambda>s h tau nvec cvals Xvecs. (0, ark_yn s)),
     MRIStepCoupling_LoadTable_DEFAULT_EXPL_MRI_TABLE_3 = Some demo_table,
     MRIStepCoupling_Space = (\<lambda>M. (0, 0)),
     arkAllocVec = (\<lambda>w. (True, w)),
     arkAllocVecArray = (\<lambda>w. (True, w)),
     calloc_ok = (\<lambda>w. (True, w)),
     arkInterpSetDegree = (\<lambda>s d. (0, ark_user_data s)),
     linit = (\<lambda>s. (0, ark_user_data s)),
     mriStep_NlsInit = (\<lambda>s. (0, ark_user_data s)) \<rparr>"

subsection \<open>Further example inputs\<close>

text \<open>
  The example memory without an interpolation module and with the maximum order
  predictor selected; with a table whose last abscissa is \<open>9/10\<close>; and with a table
  of two coefficient matrices that each hold \<open>60\<close> units of roundoff in the entry
  \<open>G[k][1][2]\<close> above the diagonal.
\<close>

definition demo_mem_no_interp :: "(real, nat) ARKodeMem" where
  "demo_mem_no_interp = demo_mem\<lparr>ark_interp := False, step_predictor := 1\<rparr>"

definition demo_mem_c09 :: "(real, nat) ARKodeMem" where
  "demo_mem_c09 = demo_mem\<lparr>step_MRIC := Some (demo_table\<lparr>MRIC_c := [0, 1 / 2, 9 / 10]\<rparr>)\<rparr>"

definition demo_mem_upper :: "(real, nat) ARKodeMem" where
  "demo_mem_upper = demo_mem\<lparr>step_MRIC := Some (demo_table\<lparr>MRIC_nmat := 2,
     MRIC_G := [[[0, 0, 0], [1 / 2, 0, 60 / 2 ^ 52], [- (1 / 2), 1, 0]],
                [[0, 0, 0], [0, 0, 60 / 2 ^ 52], [0, 0, 0]]]\<rparr>)\<rparr>"

text \<open>The rule as the specification words it: every entry above the diagonal is within the tolerance.\<close>

definition spec_lower_triangular :: "ark_consts \<Rightarrow> ('v, 'w) ARKodeMem \<Rightarrow> bool" where
  "spec_lower_triangular K s =
     (\<forall>k \<in> {..<nat (MRIC_nmat (the (step_MRIC s)))}. \<forall>i \<in> {..<nat (step_stages s)}.
        \<forall>j \<in> {i + 1..<nat (step_stages s)}.
          \<bar>MRIC_G (the (step_MRIC s)) ! k ! i ! j\<bar> \<le> 100 * UNIT_ROUNDOFF K)"

text \<open>
  The absolute values of the entries above the diagonal, in the order in which the
  loops of \<^verbatim>\<open>mriStep_CheckCoupling\<close> visit them; the terms \<open>G[k][i][j] * kconst\<close>
  that \<^verbatim>\<open>mriStep_RKCoeffs\<close> adds to \<open>Arow[j]\<close>, in the order of \<open>k\<close>; and the sum
  of a list of \<^verbatim>\<open>realtype\<close> values as a C loop accumulates it: from zero, from
  left to right, each addition rounded.
\<close>

definition upper_entries :: "('v, 'w) ARKodeMem \<Rightarrow> real list" where
  "upper_entries s =
     concat (map (\<lambda>k.
       concat (map (\<lambda>i.
         map (\<lambda>j. \<bar>MRIC_G (the (step_MRIC s)) ! k ! i ! j\<bar>) [i + 1..<nat (step_stages s)])
         [0..<nat (step_stages s)]))
       [0..<nat (MRIC_nmat (the (step_MRIC s)))])"

definition rk_terms :: "ark_consts \<Rightarrow> MRIStepCouplingMem \<Rightarrow> nat \<Rightarrow> nat \<Rightarrow> real list" where
  "rk_terms K MRIC i j =
     map (\<lambda>k. realtype_mul K (MRIC_G MRIC ! k ! i ! j)
                (realtype_div K 1 (realtype_add K (real k) 1)))
       [0..<nat (MRIC_nmat MRIC)]"

definition realtype_sum :: "ark_consts \<Rightarrow> real list \<Rightarrow> real" where
  "realtype_sum K xs = fold (\<lambda>x a. realtype_add K a x) xs 0"

text \<open>
  What the statements on accumulated sums need of the rounding: it is monotone, it
  leaves zero alone, and it leaves its own results alone. \<open>exact_consts\<close> is the
  example instance of the constants with an arithmetic that never rounds.
\<close>

definition rounding_monotone :: "ark_consts \<Rightarrow> bool" where
  "rounding_monotone K =
     (realtype_round K 0 = 0 \<and>
      (\<forall>x y. x \<le> y \<longrightarrow> realtype_round K x \<le> realtype_round K y) \<and>
      (\<forall>x. realtype_round K (realtype_round K x) = realtype_round K x))"

definition exact_consts :: ark_consts where
  "exact_consts = sundials_consts\<lparr>realtype_round := \<lambda>x. x\<rparr>"

text \<open>
  Example tables: three coefficient matrices with the single entry \<open>G[2][1][0] = 1\<close>;
  and the example memory with \<open>60\<close> units of roundoff in the one entry
  \<open>G[0][1][2]\<close> above the diagonal.
\<close>

definition demo_table_thirds :: MRIStepCouplingMem where
  "demo_table_thirds = \<lparr>MRIC_nmat = 3, MRIC_stages = 2, MRIC_q = 2, MRIC_p = 0,
     MRIC_G = [[[0, 0], [0, 0]], [[0, 0], [0, 0]], [[0, 0], [1, 0]]], MRIC_c = [0, 1]\<rparr>"

definition demo_mem_upper_one :: "(real, nat) ARKodeMem" where
  "demo_mem_upper_one = demo_mem\<lparr>step_MRIC := Some (demo_table\<lparr>
     MRIC_G := [[[0, 0, 0], [1 / 2, 0, 60 / 2 ^ 52], [- (1 / 2), 1, 0]]]\<rparr>)\<rparr>"

subsection \<open>Reading the call log\<close>

text \<open>
  The forcing data (\<open>tshift\<close>, \<open>tscale\<close>, \<open>forcing\<close>) that the calls of the inner
  stepper's \<^verbatim>\<open>evolve\<close> saw, in the order of the calls.
\<close>

fun evolve_calls :: "'v call list \<Rightarrow> (real \<times> real \<times> 'v list) list" where
  "evolve_calls [] = []"
| "evolve_calls (Call_evolve tshift tscale forcing t0 tout y flag # tr) =
     (tshift, tscale, forcing) # evolve_calls tr"
| "evolve_calls (e # tr) = evolve_calls tr"


subsection \<open>Accounting over the call log\<close>

text \<open>
  The flags returned by the calls of the slow right-hand side that the functions of this
  file make, and the arguments of these calls; the arguments of the calls of the inner
  stepper's \<^verbatim>\<open>reset\<close>; the number of right-hand side evaluations made for the
  nonlinear solver, and the flags that the nonlinear solves returned; each read off
  the call log. \<open>own_nfs\<close> is the counter \<open>nfs\<close> less the evaluations made inside the
  nonlinear solver. \<open>step_summary\<close> collects what the stage routines leave alone.
\<close>

fun fs_flags :: "'v call list \<Rightarrow> int list" where
  "fs_flags [] = []"
| "fs_flags (Call_fs t y flag # tr) = flag # fs_flags tr"
| "fs_flags (e # tr) = fs_flags tr"

fun fs_args :: "'v call list \<Rightarrow> (real \<times> 'v) list" where
  "fs_args [] = []"
| "fs_args (Call_fs t y flag # tr) = (t, y) # fs_args tr"
| "fs_args (e # tr) = fs_args tr"

fun nls_flags :: "'v call list \<Rightarrow> int list" where
  "nls_flags [] = []"
| "nls_flags (Call_Nls nfe flag # tr) = flag # nls_flags tr"
| "nls_flags (e # tr) = nls_flags tr"

fun reset_calls :: "'v call list \<Rightarrow> (real \<times> 'v) list" where
  "reset_calls [] = []"
| "reset_calls (Call_reset tR yR flag # tr) = (tR, yR) # reset_calls tr"
| "reset_calls (e # tr) = reset_calls tr"

fun nls_rhs_evals :: "'v call list \<Rightarrow> nat" where
  "nls_rhs_evals [] = 0"
| "nls_rhs_evals (Call_Nls nfe flag # tr) = nfe + nls_rhs_evals tr"
| "nls_rhs_evals (e # tr) = nls_rhs_evals tr"

definition own_nfs :: "('v, 'w) ARKodeMem \<Rightarrow> int" where
  "own_nfs s = step_nfs s - int (nls_rhs_evals (trace s))"

definition step_summary ::
  "('v, 'w) ARKodeMem \<Rightarrow> int \<times> int list \<times> real \<times> int \<times> int list \<times> (real \<times> 'v) list
     \<times> real \<times> real \<times> MRIStepCouplingMem option \<times> (real \<times> 'v) list" where
  "step_summary s =
     (step_stages s, step_stagetypes s, ark_tcur s, own_nfs s, fs_flags (trace s),
      reset_calls (trace s), ark_tn s, ark_h s, step_MRIC s, fs_args (trace s))"

text \<open>
  The time of stage \<open>is\<close> of the step that starts from the state \<open>s\<close>; and, for a list
  of stage indices paired with the points \<open>(tcur, ycur)\<close> of these stages, the points of
  the stages after which the inner stepper is to be reset: those whose type is not
  \<^verbatim>\<open>MRISTAGE_ERK_FAST\<close>, or all of them when a \<^verbatim>\<open>ProcessStage\<close> callback is set,
  provided the stepper has a \<^verbatim>\<open>reset\<close> operation.
\<close>

definition stage_time :: "('v, 'w) ARKodeMem \<Rightarrow> nat \<Rightarrow> real" where
  "stage_time s i = ark_tn s + MRIC_c (the (step_MRIC s)) ! i * ark_h s"

definition stage_resets ::
  "ark_consts \<Rightarrow> ('v, 'w) ark_env \<Rightarrow> int list \<Rightarrow> (nat \<times> real \<times> 'v) list \<Rightarrow> (real \<times> 'v) list" where
  "stage_resets K E stagetypes points =
     map snd (filter (\<lambda>(i, p).
        (stagetypes ! i \<noteq> MRISTAGE_ERK_FAST K \<or> ProcessStage E \<noteq> None) \<and> ops_reset E \<noteq> None)
       points)"

definition error_codes_nonzero :: "ark_consts \<Rightarrow> bool" where
  "error_codes_nonzero K =
     (ARK_NLS_SETUP_FAIL K \<noteq> 0 \<and> ARK_NLS_SETUP_RECVR K \<noteq> 0 \<and>
      ARK_POSTPROCESS_STAGE_FAIL K \<noteq> 0 \<and> ARK_INNERSTEP_FAIL K \<noteq> 0 \<and>
      ARK_RHSFUNC_FAIL K \<noteq> 0 \<and> ARK_UNREC_RHSFUNC_ERR K \<noteq> 0)"

text \<open>
  The example callbacks with a slow right-hand side that reports a recoverable failure;
  with a stage postprocessing callback; and with a slow right-hand side that reports a
  recoverable failure at its second call only.
\<close>

definition demo_env_fs_second :: "(real, nat) ark_env" where
  "demo_env_fs_second = demo_env\<lparr>fs := (\<lambda>t y w. (if w = 1 then 1 else 0, 2 * y, w + 1))\<rparr>"



text \<open>
  An implicit example: the second nontrivial stage has no fast evolution
  (\<open>c[2] = c[1]\<close>) and a diagonal coefficient, so it is a \<^verbatim>\<open>MRISTAGE_DIRK_NOFAST\<close>
  stage; a nonlinear solver is attached.
\<close>

definition demo_table_dirk :: MRIStepCouplingMem where
  "demo_table_dirk = \<lparr>MRIC_nmat = 1, MRIC_stages = 3, MRIC_q = 2, MRIC_p = 0,
     MRIC_G = [[[0, 0, 0], [1, 0, 0], [- (1 / 2), 0, 1 / 2]]], MRIC_c = [0, 1, 1]\<rparr>"

definition demo_mem_dirk :: "(real, nat) ARKodeMem" where
  "demo_mem_dirk = demo_mem\<lparr>step_MRIC := Some demo_table_dirk,
     step_stagetypes := [- 41, 0, 2], step_implicit := True, step_NLS := True,
     step_ownNLS := True\<rparr>"

subsection \<open>Loops over index ranges\<close>

lemma fold_assign_length:
  "length (fold (\<lambda>j A. A[j := f j]) js A) = length A"
  by (induction js arbitrary: A) simp_all

lemma fold_assign_nth:
  "j < length A \<Longrightarrow>
   fold (\<lambda>j A. A[j := f j]) [0..<n] A ! j = (if j < n then f j else A ! j)"
  by (induction n arbitrary: j)
    (auto simp add: nth_list_update fold_assign_length less_Suc_eq)


lemma fold_update_length:
  "length (fold (\<lambda>j A. A[j := F j (A ! j)]) js A) = length A"
  by (induction js arbitrary: A) simp_all

lemma fold_update_nth:
  "j < length A \<Longrightarrow>
   fold (\<lambda>j A. A[j := F j (A ! j)]) [0..<n] A ! j = (if j < n then F j (A ! j) else A ! j)"
proof (induction n arbitrary: j)
  case 0
  then show ?case by simp
next
  case (Suc n)
  then show ?case
    by (auto simp add: nth_list_update fold_update_length less_Suc_eq)
qed

lemma fold_rows_length:
  "length (fold (\<lambda>k A. fold (\<lambda>j A. A[j := F k j (A ! j)]) js A) ks A) = length A"
  by (induction ks arbitrary: A) (simp_all add: fold_update_length)

lemma fold_rows_nth:
  "j < length A \<Longrightarrow>
   fold (\<lambda>k A. fold (\<lambda>j A. A[j := F k j (A ! j)]) [0..<n] A) ks A ! j
     = (if j < n then fold (\<lambda>k a. F k j a) ks (A ! j) else A ! j)"
proof (induction ks arbitrary: A)
  case Nil
  then show ?case by simp
next
  case (Cons k ks)
  then show ?case
    by (simp add: fold_update_nth fold_update_length del: upt_Suc)
qed

subsection \<open>Rounding to double precision\<close>

lemma halve_count_lt2: "x < 2 \<Longrightarrow> halve_count x = 0"
  by (subst halve_count.simps) simp

lemma double_count_ge1: "1 \<le> x \<Longrightarrow> double_count x = 0"
  by (subst double_count.simps) simp

lemma halve_count_bounds: "1 \<le> x \<Longrightarrow> 2 ^ halve_count x \<le> x \<and> x < 2 * 2 ^ halve_count x"
proof (induction x rule: halve_count.induct)
  case (1 x)
  show ?case
  proof (cases "x < 2")
    case True
    with 1 show ?thesis by (simp add: halve_count_lt2)
  next
    case False
    then have "1 \<le> x / 2" by simp
    with 1 False have "2 ^ halve_count (x / 2) \<le> x / 2 \<and> x / 2 < 2 * 2 ^ halve_count (x / 2)"
      by blast
    moreover have "halve_count x = Suc (halve_count (x / 2))"
      using False by (subst halve_count.simps) simp
    ultimately show ?thesis by simp
  qed
qed

lemma double_count_bounds:
  "0 < x \<Longrightarrow> x < 1 \<Longrightarrow> 1 \<le> x * 2 ^ double_count x \<and> x * 2 ^ double_count x < 2"
proof (induction x rule: double_count.induct)
  case (1 x)
  have d: "double_count x = Suc (double_count (2 * x))"
    using 1(2,3) by (subst double_count.simps) simp
  show ?case
  proof (cases "1 \<le> 2 * x")
    case True
    then have "double_count (2 * x) = 0" by (rule double_count_ge1)
    with d True 1(3) show ?thesis by simp
  next
    case False
    with 1 have "1 \<le> 2 * x * 2 ^ double_count (2 * x) \<and> 2 * x * 2 ^ double_count (2 * x) < 2"
      by simp
    with d show ?thesis by (simp add: mult.assoc mult.left_commute)
  qed
qed

lemma binary_exponent_bounds:
  assumes "0 < a"
  shows "2 powi binary_exponent a \<le> a \<and> a < 2 powi (binary_exponent a + 1)"
proof (cases "1 \<le> a")
  case True
  then have "binary_exponent a = int (halve_count a)" by (simp add: binary_exponent_def double_count_ge1)
  with halve_count_bounds [OF True] show ?thesis
    by (simp add: power_int_add power_int_of_nat)
next
  case False
  then have a: "a < 1" by simp
  then have e: "binary_exponent a = - int (double_count a)" by (simp add: binary_exponent_def halve_count_lt2)
  have p: "(2::real) powi (- int (double_count a)) = 1 / 2 ^ double_count a"
    by (simp add: power_int_minus_divide)
  have "(2::real) powi (- int (double_count a) + 1) = 2 powi (- int (double_count a)) * 2"
    by (rule power_int_add_1) simp
  then have q: "(2::real) powi (- int (double_count a) + 1) = 2 / 2 ^ double_count a"
    by (simp only: p)
  from double_count_bounds [OF assms a] show ?thesis
    unfolding e p q by (simp add: field_simps)
qed

lemma binary_exponent_unique:
  assumes "0 < a" and "2 powi e \<le> a" and "a < 2 powi (e + 1)"
  shows "binary_exponent a = e"
proof -
  note b = binary_exponent_bounds [OF assms(1)]
  have "\<not> binary_exponent a + 1 \<le> e"
  proof
    assume "binary_exponent a + 1 \<le> e"
    then have "(2::real) powi (binary_exponent a + 1) \<le> 2 powi e" by (intro power_int_increasing) simp_all
    with b assms(2) show False by linarith
  qed
  moreover have "\<not> e + 1 \<le> binary_exponent a"
  proof
    assume "e + 1 \<le> binary_exponent a"
    then have "(2::real) powi (e + 1) \<le> 2 powi binary_exponent a" by (intro power_int_increasing) simp_all
    with b assms(3) show False by linarith
  qed
  ultimately show ?thesis by linarith
qed

lemma powi_diff_nat: "(2::real) powi (int m - int n) = 2 ^ m / 2 ^ n"
proof -
  have "(2::real) powi (int m - int n) = 2 powi (int m) / 2 powi (int n)"
    by (rule power_int_diff) simp
  then show ?thesis by (simp only: power_int_of_nat)
qed

lemma double_round_pos:
  assumes "0 < a"
  shows "double_round a = of_int (round_even (a * 2 powi (52 - binary_exponent a))) * 2 powi (binary_exponent a - 52)"
proof -
  have "52 - binary_exponent a = int (52 + double_count a) - int (halve_count a)"
    "binary_exponent a - 52 = int (halve_count a) - int (52 + double_count a)"
    by (simp_all add: binary_exponent_def)
  then have s: "(2::real) powi (52 - binary_exponent a) = 2 ^ (52 + double_count a) / 2 ^ halve_count a"
    and t: "(2::real) powi (binary_exponent a - 52) = 2 ^ halve_count a / 2 ^ (52 + double_count a)"
    by (simp_all only: powi_diff_nat)
  show ?thesis using assms unfolding s t by (simp add: double_round_def power_add mult.assoc)
qed


lemma double_round_neg: "double_round (- x) = - double_round x"
  by (simp add: double_round_def sgn_minus)

lemma double_round_0: "double_round 0 = 0"
  by (simp add: double_round_def)

lemma round_even_of_int: "round_even (of_int n) = n"
  by (simp add: round_even_def)

lemma round_even_cases: "round_even t = \<lfloor>t\<rfloor> \<or> round_even t = \<lfloor>t\<rfloor> + 1"
  by (simp add: round_even_def)

lemma round_even_mono:
  assumes "s \<le> t"
  shows "round_even s \<le> round_even t"
proof (cases "\<lfloor>s\<rfloor> = \<lfloor>t\<rfloor>")
  case True
  with assms show ?thesis by (simp add: round_even_def)
next
  case False
  with assms have "\<lfloor>s\<rfloor> < \<lfloor>t\<rfloor>" by (simp add: floor_mono order.strict_iff_order)
  moreover have "round_even s \<le> \<lfloor>s\<rfloor> + 1" using round_even_cases [of s] by auto
  moreover have "\<lfloor>t\<rfloor> \<le> round_even t" using round_even_cases [of t] by auto
  ultimately show ?thesis by linarith
qed

lemma round_even_ge: "of_int n \<le> t \<Longrightarrow> n \<le> round_even t"
  using round_even_mono [of "of_int n" t] by (simp add: round_even_of_int)

lemma round_even_le: "t \<le> of_int n \<Longrightarrow> round_even t \<le> n"
  using round_even_mono [of t "of_int n"] by (simp add: round_even_of_int)


lemma powi_two_mult: "(2::real) powi m * 2 powi n = 2 powi (m + n)"
  by (simp add: power_int_add)

lemma powi_two_numeral: "(2::real) powi 52 = 2 ^ 52" "(2::real) powi 53 = 2 ^ 53"
proof -
  have "(2::real) powi (int 52) = 2 ^ 52" "(2::real) powi (int 53) = 2 ^ 53"
    by (simp_all only: power_int_of_nat)
  then show "(2::real) powi 52 = 2 ^ 52" "(2::real) powi 53 = 2 ^ 53" by simp_all
qed

lemma scale_back:
  "(2::real) ^ 52 * 2 powi (e - 52) = 2 powi e"
  "(2::real) ^ 53 * 2 powi (e - 52) = 2 powi (e + 1)"
proof -
  have e: "52 + (e - 52) = e" "53 + (e - 52) = e + 1" by simp_all
  have "(2::real) powi 52 * 2 powi (e - 52) = 2 powi (52 + (e - 52))"
    "(2::real) powi 53 * 2 powi (e - 52) = 2 powi (53 + (e - 52))"
    by (rule powi_two_mult)+
  then have "(2::real) powi 52 * 2 powi (e - 52) = 2 powi e"
    "(2::real) powi 53 * 2 powi (e - 52) = 2 powi (e + 1)"
    by (simp_all only: e)
  then show "(2::real) ^ 52 * 2 powi (e - 52) = 2 powi e"
    "(2::real) ^ 53 * 2 powi (e - 52) = 2 powi (e + 1)"
    by (simp_all only: powi_two_numeral)
qed

lemma scaled_bounds:
  assumes "0 < a"
  shows "2 ^ 52 \<le> a * 2 powi (52 - binary_exponent a)" and "a * 2 powi (52 - binary_exponent a) < 2 ^ 53"
proof -
  note b = binary_exponent_bounds [OF assms]
  have pos: "0 < (2::real) powi (52 - binary_exponent a)" by (simp add: zero_less_power_int)
  have "2 powi binary_exponent a * 2 powi (52 - binary_exponent a) \<le> a * 2 powi (52 - binary_exponent a)"
    using b pos by (intro mult_right_mono) simp_all
  then show "2 ^ 52 \<le> a * 2 powi (52 - binary_exponent a)"
    by (simp add: powi_two_mult powi_two_numeral)
  have "a * 2 powi (52 - binary_exponent a) < 2 powi (binary_exponent a + 1) * 2 powi (52 - binary_exponent a)"
    using b pos by (intro mult_strict_right_mono) simp_all
  then show "a * 2 powi (52 - binary_exponent a) < 2 ^ 53"
    by (simp add: powi_two_mult powi_two_numeral)
qed

lemma round_even_scaled:
  assumes "0 < a"
  shows "2 ^ 52 \<le> round_even (a * 2 powi (52 - binary_exponent a))"
    and "round_even (a * 2 powi (52 - binary_exponent a)) \<le> 2 ^ 53"
proof -
  have "of_int (2 ^ 52) \<le> a * 2 powi (52 - binary_exponent a)" using scaled_bounds(1) [OF assms] by simp
  then show "2 ^ 52 \<le> round_even (a * 2 powi (52 - binary_exponent a))" by (rule round_even_ge)
  have "a * 2 powi (52 - binary_exponent a) \<le> of_int (2 ^ 53)" using scaled_bounds(2) [OF assms] by simp
  then show "round_even (a * 2 powi (52 - binary_exponent a)) \<le> 2 ^ 53" by (rule round_even_le)
qed

lemma double_round_pos_bounds:
  assumes "0 < a"
  shows "2 powi binary_exponent a \<le> double_round a" and "double_round a \<le> 2 powi (binary_exponent a + 1)"
proof -
  let ?m = "round_even (a * 2 powi (52 - binary_exponent a))"
  have pos: "0 \<le> (2::real) powi (binary_exponent a - 52)" by (simp add: zero_less_power_int less_imp_le)
  have "(2::real) ^ 52 \<le> of_int ?m" using round_even_scaled(1) [OF assms]
    by (metis of_int_le_iff of_int_numeral of_int_power)
  then have "(2::real) ^ 52 * 2 powi (binary_exponent a - 52) \<le> of_int ?m * 2 powi (binary_exponent a - 52)"
    using pos by (intro mult_right_mono)
  then show "2 powi binary_exponent a \<le> double_round a"
    by (simp only: double_round_pos [OF assms] scale_back)
  have "of_int ?m \<le> (2::real) ^ 53" using round_even_scaled(2) [OF assms]
    by (metis of_int_le_iff of_int_numeral of_int_power)
  then have "of_int ?m * 2 powi (binary_exponent a - 52) \<le> (2::real) ^ 53 * 2 powi (binary_exponent a - 52)"
    using pos by (intro mult_right_mono)
  then show "double_round a \<le> 2 powi (binary_exponent a + 1)"
    by (simp only: double_round_pos [OF assms] scale_back)
qed

lemma double_round_pos_gt:
  assumes "0 < a"
  shows "0 < double_round a"
proof -
  have "0 < (2::real) powi binary_exponent a" by (simp add: zero_less_power_int)
  with double_round_pos_bounds(1) [OF assms] show ?thesis by linarith
qed

lemma binary_exponent_mono:
  assumes "0 < a" and "a \<le> b"
  shows "binary_exponent a \<le> binary_exponent b"
proof (rule ccontr)
  assume "\<not> binary_exponent a \<le> binary_exponent b"
  then have "binary_exponent b + 1 \<le> binary_exponent a" by simp
  then have "(2::real) powi (binary_exponent b + 1) \<le> 2 powi binary_exponent a" by (intro power_int_increasing) simp_all
  moreover have "0 < b" using assms by simp
  ultimately show False using binary_exponent_bounds [OF assms(1)] binary_exponent_bounds [OF \<open>0 < b\<close>] assms(2)
    by linarith
qed

lemma double_round_mono_pos:
  assumes "0 < a" and "a \<le> b"
  shows "double_round a \<le> double_round b"
proof -
  have b: "0 < b" using assms by simp
  show ?thesis
  proof (cases "binary_exponent a = binary_exponent b")
    case True
    have "a * 2 powi (52 - binary_exponent b) \<le> b * 2 powi (52 - binary_exponent b)"
      using assms(2) by (intro mult_right_mono) (simp_all add: zero_less_power_int less_imp_le)
    then have "round_even (a * 2 powi (52 - binary_exponent b)) \<le> round_even (b * 2 powi (52 - binary_exponent b))"
      by (rule round_even_mono)
    then have "of_int (round_even (a * 2 powi (52 - binary_exponent b))) * 2 powi (binary_exponent b - 52)
        \<le> (of_int (round_even (b * 2 powi (52 - binary_exponent b))) :: real) * 2 powi (binary_exponent b - 52)"
      by (intro mult_right_mono) (simp_all add: zero_less_power_int less_imp_le)
    then show ?thesis
      by (simp add: double_round_pos [OF assms(1)] double_round_pos [OF b] True)
  next
    case False
    with binary_exponent_mono [OF assms] have "binary_exponent a + 1 \<le> binary_exponent b" by simp
    then have "(2::real) powi (binary_exponent a + 1) \<le> 2 powi binary_exponent b"
      by (intro power_int_increasing) simp_all
    with double_round_pos_bounds(2) [OF assms(1)] double_round_pos_bounds(1) [OF b]
    show ?thesis by linarith
  qed
qed

lemma double_round_mono:
  assumes "x \<le> y"
  shows "double_round x \<le> double_round y"
proof -
  have nonneg: "0 \<le> double_round a" if "0 \<le> a" for a
    using that double_round_pos_gt [of a] by (cases "a = 0") (simp_all add: double_round_0)
  have nonpos: "double_round a \<le> 0" if "a \<le> 0" for a
    using nonneg [of "- a"] that by (simp add: double_round_neg)
  consider "0 < x" | "x \<le> 0" "0 \<le> y" | "y < 0" by linarith
  then show ?thesis
  proof cases
    case 1
    then show ?thesis using assms by (rule double_round_mono_pos)
  next
    case 2
    then show ?thesis using nonneg [of y] nonpos [of x] by simp
  next
    case 3
    then have "0 < - y" "- y \<le> - x" using assms by simp_all
    then have "double_round (- y) \<le> double_round (- x)" by (rule double_round_mono_pos)
    then show ?thesis by (simp add: double_round_neg)
  qed
qed

lemma double_round_idem_pos:
  assumes "0 < a"
  shows "double_round (double_round a) = double_round a"
proof -
  let ?e = "binary_exponent a"
  let ?m = "round_even (a * 2 powi (52 - ?e))"
  let ?r = "double_round a"
  have r: "?r = of_int ?m * 2 powi (?e - 52)" by (rule double_round_pos [OF assms])
  have rpos: "0 < ?r" by (rule double_round_pos_gt [OF assms])
  show ?thesis
  proof (cases "?m = 2 ^ 53")
    case True
    have "of_int ?m = (2::real) ^ 53" by (simp only: True) simp
    then have r1: "?r = 2 powi (?e + 1)"
      by (simp only: r scale_back)
    have "(2::real) powi (?e + 1) < 2 powi (?e + 1 + 1)"
      by (intro power_int_strict_increasing) simp_all
    then have e1: "binary_exponent ?r = ?e + 1"
      using rpos by (intro binary_exponent_unique) (simp_all add: r1)
    have "?r * 2 powi (52 - (?e + 1)) = of_int (2 ^ 52)"
      unfolding r1 by (simp add: powi_two_mult powi_two_numeral)
    then have "round_even (?r * 2 powi (52 - (?e + 1))) = 2 ^ 52"
      by (simp only: round_even_of_int)
    then have "double_round ?r = of_int (2 ^ 52) * 2 powi (?e + 1 - 52)"
      by (simp only: double_round_pos [OF rpos] e1)
    also have "\<dots> = (2::real) ^ 52 * 2 powi (?e + 1 - 52)" by simp
    also have "\<dots> = 2 powi (?e + 1)" by (rule scale_back)
    finally show ?thesis by (simp only: r1)
  next
    case False
    with round_even_scaled(2) [OF assms] have "?m < 2 ^ 53" by simp
    then have "(of_int ?m :: real) < 2 ^ 53"
      by (metis of_int_less_iff of_int_numeral of_int_power)
    then have "of_int ?m * 2 powi (?e - 52) < (2::real) ^ 53 * 2 powi (?e - 52)"
      by (intro mult_strict_right_mono) (simp_all add: zero_less_power_int)
    then have "?r < 2 powi (?e + 1)"
      by (simp only: r scale_back)
    with double_round_pos_bounds(1) [OF assms] rpos have e1: "binary_exponent ?r = ?e"
      by (intro binary_exponent_unique)
    have "?r * 2 powi (52 - ?e) = of_int ?m"
      unfolding r by (simp add: mult.assoc powi_two_mult)
    then have "round_even (?r * 2 powi (52 - ?e)) = ?m" by (simp only: round_even_of_int)
    then have "double_round ?r = of_int ?m * 2 powi (?e - 52)"
      by (simp only: double_round_pos [OF rpos] e1)
    then show ?thesis by (simp only: r)
  qed
qed

lemma double_round_idem: "double_round (double_round x) = double_round x"
proof -
  consider "0 < x" | "x = 0" | "0 < - x" by linarith
  then show ?thesis
  proof cases
    case 1
    then show ?thesis by (rule double_round_idem_pos)
  next
    case 2
    then show ?thesis by (simp add: double_round_0)
  next
    case 3
    from double_round_idem_pos [OF 3] show ?thesis by (simp add: double_round_neg)
  qed
qed


lemma double_rounding_monotone: "rounding_monotone sundials_consts"
  by (simp add: rounding_monotone_def sundials_consts_def double_round_0 double_round_mono
      double_round_idem)

lemma exact_rounding_monotone: "rounding_monotone exact_consts"
  by (simp add: rounding_monotone_def exact_consts_def)

lemmas double_eval = double_round_def round_even_def halve_count.simps double_count.simps

subsection \<open>Sums accumulated in \<^verbatim>\<open>realtype\<close>\<close>

lemma fold_concat_map:
  "fold f (concat (map g xs)) = fold (\<lambda>x. fold f (g x)) xs"
  by (induction xs) simp_all

lemma sum_list_concat_map:
  "sum_list (concat (map g xs)) = sum_list (map (\<lambda>x. sum_list (g x)) xs)"
  by (induction xs) simp_all

lemma fold_plus_sum_list: "fold (\<lambda>x a. a + x) xs (a::real) = a + sum_list xs"
  by (induction xs arbitrary: a) simp_all

lemma realtype_sum_exact:
  "realtype_round K = (\<lambda>x. x) \<Longrightarrow> realtype_sum K xs = sum_list xs"
  by (simp add: realtype_sum_def realtype_add_def fold_plus_sum_list)

lemma realtype_fold_ge:
  assumes "rounding_monotone K"
  shows "0 \<le> a \<Longrightarrow> realtype_round K a = a \<Longrightarrow>
         (\<And>x. x \<in> set xs \<Longrightarrow> 0 \<le> x \<and> realtype_round K x = x) \<Longrightarrow>
         a \<le> fold (\<lambda>x a. realtype_add K a x) xs a \<and>
         (\<forall>x \<in> set xs. x \<le> fold (\<lambda>x a. realtype_add K a x) xs a)"
proof (induction xs arbitrary: a)
  case Nil
  then show ?case by simp
next
  case (Cons y ys)
  let ?a = "realtype_add K a y"
  from assms have mono: "\<And>u v. u \<le> v \<Longrightarrow> realtype_round K u \<le> realtype_round K v"
    and idem: "\<And>u. realtype_round K (realtype_round K u) = realtype_round K u"
    unfolding rounding_monotone_def by blast+
  have y: "0 \<le> y" "realtype_round K y = y" using Cons.prems(3) [of y] by simp_all
  have "realtype_round K a \<le> realtype_round K (a + y)" using y(1) by (intro mono) simp
  then have 1: "a \<le> ?a" by (simp only: Cons.prems(2) realtype_add_def)
  have "realtype_round K y \<le> realtype_round K (a + y)" using Cons.prems(1) by (intro mono) simp
  then have 2: "y \<le> ?a" by (simp only: y(2) realtype_add_def)
  have 3: "0 \<le> ?a" using 1 Cons.prems(1) by linarith
  have 4: "realtype_round K ?a = ?a" by (simp only: realtype_add_def idem)
  have 5: "\<And>x. x \<in> set ys \<Longrightarrow> 0 \<le> x \<and> realtype_round K x = x"
    using Cons.prems(3) by simp
  note IH = Cons.IH [OF 3 4 5]
  have r: "fold (\<lambda>x a. realtype_add K a x) (y # ys) a = fold (\<lambda>x a. realtype_add K a x) ys ?a"
    by simp
  show ?case
    unfolding r
  proof (intro conjI ballI)
    from IH 1 show "a \<le> fold (\<lambda>x a. realtype_add K a x) ys ?a" by linarith
  next
    fix x assume "x \<in> set (y # ys)"
    then consider "x = y" | "x \<in> set ys" by auto
    then show "x \<le> fold (\<lambda>x a. realtype_add K a x) ys ?a"
    proof cases
      case 1
      with IH 2 show ?thesis by linarith
    next
      case 2
      with IH show ?thesis by blast
    qed
  qed
qed

lemma realtype_sum_ge:
  assumes "rounding_monotone K"
    and "\<And>x. x \<in> set xs \<Longrightarrow> 0 \<le> x \<and> realtype_round K x = x"
    and "x \<in> set xs"
  shows "x \<le> realtype_sum K xs"
proof -
  have "realtype_round K 0 = 0" using assms(1) by (simp add: rounding_monotone_def)
  from realtype_fold_ge [OF assms(1) order_refl this assms(2)] assms(3)
  show ?thesis unfolding realtype_sum_def by blast
qed

subsection \<open>Effective Runge-Kutta rows and stage indices\<close>

text \<open>
  C2. For a stage index \<open>is\<close> with \<open>1 \<le> is < stages\<close> and an array \<open>Arow\<close> of
  \<open>stages\<close> entries, \<^verbatim>\<open>mriStep_RKCoeffs\<close> succeeds and leaves in \<open>Arow[j]\<close>, for
  \<open>j \<le> is\<close>, the sum of the terms \<open>G[k][is][j] * kconst\<close> over \<open>k < nmat\<close>,
  accumulated from zero in the order of \<open>k\<close> with every operation rounded, where
  \<open>kconst\<close> is the rounded quotient \<open>ONE/(k+ONE)\<close>; and zero for \<open>j > is\<close>. With an
  arithmetic that does not round, the entry is the sum over \<open>k < nmat\<close> of
  \<open>G[k][is][j] / (k+1)\<close>.
\<close>

theorem rkcoeffs_row:
  assumes "1 \<le> is" and "is < MRIC_stages MRIC"
    and "length Arow = nat (MRIC_stages MRIC)"
    and "j < nat (MRIC_stages MRIC)"
  shows "fst (mriStep_RKCoeffs K MRIC is Arow) = ARK_SUCCESS \<and>
         snd (mriStep_RKCoeffs K MRIC is Arow) ! j =
           (if j \<le> nat is then realtype_sum K (rk_terms K MRIC (nat is) j) else 0) \<and>
         (realtype_round K = (\<lambda>x. x) \<longrightarrow>
            snd (mriStep_RKCoeffs K MRIC is Arow) ! j =
              (if j \<le> nat is
               then \<Sum>k<nat (MRIC_nmat MRIC). MRIC_G MRIC ! k ! nat is ! j / (real k + 1)
               else 0))"
proof -
  let ?A0 = "fold (\<lambda>j A. A[j := 0]) [0..<nat (MRIC_stages MRIC)] Arow"
  let ?F = "\<lambda>k j a. realtype_add K a
              (realtype_mul K (MRIC_G MRIC ! k ! nat is ! j)
                 (realtype_div K 1 (realtype_add K (real k) 1)))"
  let ?A1 = "fold (\<lambda>k A. fold (\<lambda>j A. A[j := ?F k j (A ! j)]) [0..<Suc (nat is)] A)
               [0..<nat (MRIC_nmat MRIC)] ?A0"
  have ne: "Arow \<noteq> []" using assms by auto
  have len: "j < length ?A0" using assms by (simp add: fold_assign_length)
  have zero: "?A0 ! j = 0" using assms by (simp add: fold_assign_nth)
  have row: "?A1 ! j =
      (if j < Suc (nat is) then fold (\<lambda>k a. ?F k j a) [0..<nat (MRIC_nmat MRIC)] (?A0 ! j)
       else ?A0 ! j)"
    by (rule fold_rows_nth [OF len])
  have sum: "fold (\<lambda>k a. ?F k j a) [0..<nat (MRIC_nmat MRIC)] 0
      = realtype_sum K (rk_terms K MRIC (nat is) j)"
    by (simp add: realtype_sum_def rk_terms_def fold_map o_def)
  have res: "mriStep_RKCoeffs K MRIC is Arow = (ARK_SUCCESS, ?A1)"
    using assms ne by (simp add: mriStep_RKCoeffs_def Let_def del: upt_Suc)
  have entry: "snd (mriStep_RKCoeffs K MRIC is Arow) ! j =
      (if j \<le> nat is then realtype_sum K (rk_terms K MRIC (nat is) j) else 0)"
    unfolding res snd_conv row zero sum by (simp add: less_Suc_eq_le)
  have exact: "realtype_sum K (rk_terms K MRIC (nat is) j)
      = (\<Sum>k<nat (MRIC_nmat MRIC). MRIC_G MRIC ! k ! nat is ! j / (real k + 1))"
    if "realtype_round K = (\<lambda>x. x)"
    using that
    by (simp add: realtype_sum_exact rk_terms_def realtype_mul_def realtype_div_def
        realtype_add_def interv_sum_list_conv_sum_set_nat atLeast0LessThan)
  from res entry exact show ?thesis by simp
qed

theorem rkcoeffs_row_witness:
  "fst (mriStep_RKCoeffs sundials_consts
          \<lparr>MRIC_nmat = 2, MRIC_stages = 3, MRIC_q = 3, MRIC_p = 0,
           MRIC_G = [[[0, 0, 0], [1, 0, 0], [2, 3, 0]], [[0, 0, 0], [4, 0, 0], [6, 8, 0]]],
           MRIC_c = [0, 1 / 2, 1]\<rparr> 2 [7, 7, 7]) = ARK_SUCCESS \<and>
   snd (mriStep_RKCoeffs sundials_consts
          \<lparr>MRIC_nmat = 2, MRIC_stages = 3, MRIC_q = 3, MRIC_p = 0,
           MRIC_G = [[[0, 0, 0], [1, 0, 0], [2, 3, 0]], [[0, 0, 0], [4, 0, 0], [6, 8, 0]]],
           MRIC_c = [0, 1 / 2, 1]\<rparr> 2 [7, 7, 7]) ! 1 = 7 \<and>
   snd (mriStep_RKCoeffs sundials_consts demo_table_thirds 1 [7, 7]) ! 0
     = 6004799503160661 / 18014398509481984 \<and>
   snd (mriStep_RKCoeffs sundials_consts
          \<lparr>MRIC_nmat = 2, MRIC_stages = 3, MRIC_q = 3, MRIC_p = 0,
           MRIC_G = [[[0, 0, 0], [1, 0, 0], [2, 3, 0]], [[0, 0, 0], [4, 0, 0], [6, 8, 0]]],
           MRIC_c = [0, 1 / 2, 1]\<rparr> 1 [7, 7, 7]) ! 2 = 0 \<and>
   snd (mriStep_RKCoeffs exact_consts demo_table_thirds 1 [7, 7]) ! 0 = 1 / 3"
proof -
  have a: "realtype_sum sundials_consts (rk_terms sundials_consts
      \<lparr>MRIC_nmat = 2, MRIC_stages = 3, MRIC_q = 3, MRIC_p = 0,
       MRIC_G = [[[0, 0, 0], [1, 0, 0], [2, 3, 0]], [[0, 0, 0], [4, 0, 0], [6, 8, 0]]],
       MRIC_c = [0, 1 / 2, 1]\<rparr> 2 (Suc 0)) = 7"
    by (simp add: realtype_sum_def rk_terms_def numeral_2_eq_2 upt_rec)
      (simp add: realtype_add_def realtype_mul_def realtype_div_def sundials_consts_def double_eval)
  have b: "realtype_sum sundials_consts (rk_terms sundials_consts demo_table_thirds (Suc 0) 0)
      = 6004799503160661 / 18014398509481984"
    by (simp add: realtype_sum_def rk_terms_def demo_table_thirds_def numeral_3_eq_3 upt_rec)
      (simp add: realtype_add_def realtype_mul_def realtype_div_def sundials_consts_def double_eval)
  have c: "realtype_round exact_consts = (\<lambda>x. x)" "MRIC_stages demo_table_thirds = 2"
    "nat (MRIC_nmat demo_table_thirds) = 3"
    "(\<Sum>k<3. MRIC_G demo_table_thirds ! k ! Suc 0 ! 0 / (real k + 1)) = 1 / 3"
    by (simp_all add: exact_consts_def demo_table_thirds_def numeral_3_eq_3 lessThan_Suc)
  from rkcoeffs_row [of 2
      "\<lparr>MRIC_nmat = 2, MRIC_stages = 3, MRIC_q = 3, MRIC_p = 0,
        MRIC_G = [[[0, 0, 0], [1, 0, 0], [2, 3, 0]], [[0, 0, 0], [4, 0, 0], [6, 8, 0]]],
        MRIC_c = [0, 1 / 2, 1]\<rparr>" "[7, 7, 7]" 1 sundials_consts]
  have 1: "fst (mriStep_RKCoeffs sundials_consts
          \<lparr>MRIC_nmat = 2, MRIC_stages = 3, MRIC_q = 3, MRIC_p = 0,
           MRIC_G = [[[0, 0, 0], [1, 0, 0], [2, 3, 0]], [[0, 0, 0], [4, 0, 0], [6, 8, 0]]],
           MRIC_c = [0, 1 / 2, 1]\<rparr> 2 [7, 7, 7]) = ARK_SUCCESS \<and>
   snd (mriStep_RKCoeffs sundials_consts
          \<lparr>MRIC_nmat = 2, MRIC_stages = 3, MRIC_q = 3, MRIC_p = 0,
           MRIC_G = [[[0, 0, 0], [1, 0, 0], [2, 3, 0]], [[0, 0, 0], [4, 0, 0], [6, 8, 0]]],
           MRIC_c = [0, 1 / 2, 1]\<rparr> 2 [7, 7, 7]) ! 1 = 7"
    by (simp add: a)
  from rkcoeffs_row [of 1 demo_table_thirds "[7, 7]" 0 sundials_consts]
  have 2: "snd (mriStep_RKCoeffs sundials_consts demo_table_thirds 1 [7, 7]) ! 0
     = 6004799503160661 / 18014398509481984"
    by (simp add: b c(2))
  from rkcoeffs_row [of 1
      "\<lparr>MRIC_nmat = 2, MRIC_stages = 3, MRIC_q = 3, MRIC_p = 0,
        MRIC_G = [[[0, 0, 0], [1, 0, 0], [2, 3, 0]], [[0, 0, 0], [4, 0, 0], [6, 8, 0]]],
        MRIC_c = [0, 1 / 2, 1]\<rparr>" "[7, 7, 7]" 2 sundials_consts]
  have 3: "snd (mriStep_RKCoeffs sundials_consts
          \<lparr>MRIC_nmat = 2, MRIC_stages = 3, MRIC_q = 3, MRIC_p = 0,
           MRIC_G = [[[0, 0, 0], [1, 0, 0], [2, 3, 0]], [[0, 0, 0], [4, 0, 0], [6, 8, 0]]],
           MRIC_c = [0, 1 / 2, 1]\<rparr> 1 [7, 7, 7]) ! 2 = 0"
    by simp
  from rkcoeffs_row [of 1 demo_table_thirds "[7, 7]" 0 exact_consts]
  have 4: "snd (mriStep_RKCoeffs exact_consts demo_table_thirds 1 [7, 7]) ! 0 = 1 / 3"
    by (simp add: c)
  from 1 2 3 4 show ?thesis by simp
qed

theorem rkcoeffs_row_counterexample:
  "(1::int) \<le> 1 \<and> 1 < MRIC_stages demo_table_thirds \<and> MRIC_nmat demo_table_thirds = 3 \<and>
   fst (mriStep_RKCoeffs sundials_consts demo_table_thirds 1 [0, 0]) = ARK_SUCCESS \<and>
   snd (mriStep_RKCoeffs sundials_consts demo_table_thirds 1 [0, 0]) ! 0
     = 6004799503160661 / 18014398509481984 \<and>
   (\<Sum>k<3. MRIC_G demo_table_thirds ! k ! 1 ! 0 / (real k + 1)) = 1 / 3 \<and>
   snd (mriStep_RKCoeffs sundials_consts demo_table_thirds 1 [0, 0]) ! 0
     \<noteq> (\<Sum>k<3. MRIC_G demo_table_thirds ! k ! 1 ! 0 / (real k + 1))"
  by (simp add: mriStep_RKCoeffs_def demo_table_thirds_def ARK_SUCCESS_def Let_def
      numeral_3_eq_3 numeral_2_eq_2 lessThan_Suc upt_rec)
    (simp add: realtype_add_def realtype_mul_def realtype_div_def sundials_consts_def double_eval)

text \<open>
  C9. For a stage index outside \<open>[1, stages - 1]\<close>, in particular for stage 0, both
  \<^verbatim>\<open>mriStep_StageType\<close> and \<^verbatim>\<open>mriStep_RKCoeffs\<close> return \<^verbatim>\<open>ARK_INVALID_TABLE\<close>,
  which is negative, and \<^verbatim>\<open>mriStep_RKCoeffs\<close> leaves the row untouched.
\<close>

theorem stage_index_out_of_range:
  assumes "is < 1 \<or> MRIC_stages MRIC \<le> is" and "ARK_INVALID_TABLE K < 0"
  shows "mriStep_StageType K MRIC is = ARK_INVALID_TABLE K \<and>
         mriStep_StageType K MRIC is < 0 \<and>
         mriStep_RKCoeffs K MRIC is Arow = (ARK_INVALID_TABLE K, Arow) \<and>
         fst (mriStep_RKCoeffs K MRIC is Arow) < 0"
  using assms by (auto simp add: mriStep_StageType_def mriStep_RKCoeffs_def)

theorem stage_index_out_of_range_witness:
  "mriStep_StageType sundials_consts
     \<lparr>MRIC_nmat = 1, MRIC_stages = 3, MRIC_q = 3, MRIC_p = 0,
      MRIC_G = [[[0, 0, 0], [1 / 2, 0, 0], [0, 1 / 2, 0]]], MRIC_c = [0, 1 / 2, 1]\<rparr> 0 = - 41 \<and>
   mriStep_RKCoeffs sundials_consts
     \<lparr>MRIC_nmat = 1, MRIC_stages = 3, MRIC_q = 3, MRIC_p = 0,
      MRIC_G = [[[0, 0, 0], [1 / 2, 0, 0], [0, 1 / 2, 0]]], MRIC_c = [0, 1 / 2, 1]\<rparr> 0 [7, 7, 7]
     = (- 41, [7, 7, 7])"
  using stage_index_out_of_range [of 0
      "\<lparr>MRIC_nmat = 1, MRIC_stages = 3, MRIC_q = 3, MRIC_p = 0,
        MRIC_G = [[[0, 0, 0], [1 / 2, 0, 0], [0, 1 / 2, 0]]], MRIC_c = [0, 1 / 2, 1]\<rparr>"
      sundials_consts "[7, 7, 7]"]
  by (simp add: sundials_consts_def)

subsection \<open>The full right-hand side\<close>

text \<open>
  C7. When the slow right-hand side and the inner stepper's full right-hand side both
  succeed, \<^verbatim>\<open>mriStep_FullRHS\<close> returns their sum in \<open>f\<close> in every mode; the
  modes \<^verbatim>\<open>ARK_FULLRHS_START\<close> and \<^verbatim>\<open>ARK_FULLRHS_END\<close> store the slow right-hand
  side in \<open>F[0]\<close> and leave \<open>tempv2\<close> alone, the mode \<^verbatim>\<open>ARK_FULLRHS_OTHER\<close>
  stores it in \<open>tempv2\<close> and leaves \<open>F\<close> alone; any other mode returns
  \<^verbatim>\<open>ARK_RHSFUNC_FAIL\<close> and changes nothing.
\<close>

theorem full_rhs_modes:
  assumes "ARK_FULLRHS_OTHER K \<noteq> ARK_FULLRHS_START K"
    and "ARK_FULLRHS_OTHER K \<noteq> ARK_FULLRHS_END K"
  shows "(fs E t y (ark_user_data s) = (0, fsv, w1) \<and> ops_fullrhs E = Some ff \<and>
          ff t y (ARK_FULLRHS_OTHER K) w1 = (0, ffv, w2) \<and> step_F s \<noteq> [] \<longrightarrow>
            (mode = ARK_FULLRHS_START K \<or> mode = ARK_FULLRHS_END K \<longrightarrow>
               fst (mriStep_FullRHS K E t y f mode s) = ARK_SUCCESS \<and>
               fst (snd (mriStep_FullRHS K E t y f mode s)) = fsv + ffv \<and>
               step_F (snd (snd (mriStep_FullRHS K E t y f mode s))) = (step_F s)[0 := fsv] \<and>
               step_F (snd (snd (mriStep_FullRHS K E t y f mode s))) ! 0 = fsv \<and>
               ark_tempv2 (snd (snd (mriStep_FullRHS K E t y f mode s))) = ark_tempv2 s) \<and>
            (mode = ARK_FULLRHS_OTHER K \<longrightarrow>
               fst (mriStep_FullRHS K E t y f mode s) = ARK_SUCCESS \<and>
               fst (snd (mriStep_FullRHS K E t y f mode s)) = fsv + ffv \<and>
               ark_tempv2 (snd (snd (mriStep_FullRHS K E t y f mode s))) = fsv \<and>
               step_F (snd (snd (mriStep_FullRHS K E t y f mode s))) = step_F s)) \<and>
         (mode \<noteq> ARK_FULLRHS_START K \<and> mode \<noteq> ARK_FULLRHS_END K \<and>
          mode \<noteq> ARK_FULLRHS_OTHER K \<longrightarrow>
            mriStep_FullRHS K E t y f mode s = (ARK_RHSFUNC_FAIL K, f, s))"
  using assms
  by (auto simp add: mriStep_FullRHS_def call_fs_def mriStepInnerStepper_FullRhs_def
      log_call_def N_VLinearSum_def ARK_SUCCESS_def Let_def)

theorem full_rhs_modes_witness:
  "fst (mriStep_FullRHS sundials_consts demo_env 0 1 0 2 demo_mem) = 0 \<and>
   fst (snd (mriStep_FullRHS sundials_consts demo_env 0 1 0 2 demo_mem)) = 5 \<and>
   ark_tempv2 (snd (snd (mriStep_FullRHS sundials_consts demo_env 0 1 0 2 demo_mem))) = 2 \<and>
   step_F (snd (snd (mriStep_FullRHS sundials_consts demo_env 0 1 0 2 demo_mem))) = [2, 0, 0] \<and>
   mriStep_FullRHS sundials_consts demo_env 0 1 0 7 demo_mem = (- 8, 0, demo_mem)"
proof -
  have K: "ARK_FULLRHS_OTHER sundials_consts \<noteq> ARK_FULLRHS_START sundials_consts"
    "ARK_FULLRHS_OTHER sundials_consts \<noteq> ARK_FULLRHS_END sundials_consts"
    by (simp_all add: sundials_consts_def)
  have cb: "fs demo_env 0 1 (ark_user_data demo_mem) = (0, 2, 1) \<and>
        ops_fullrhs demo_env = Some (\<lambda>t y mode w. (0, 3 * y, w)) \<and>
        (\<lambda>t y mode w. (0, 3 * y, w)) 0 (1::real) (ARK_FULLRHS_OTHER sundials_consts) (1::nat)
          = (0, 3, 1) \<and> step_F demo_mem \<noteq> []"
    by (simp add: demo_env_def demo_mem_def)
  have m: "ARK_FULLRHS_OTHER sundials_consts = 2" "ARK_FULLRHS_START sundials_consts = 0"
    "ARK_FULLRHS_END sundials_consts = 1" "ARK_RHSFUNC_FAIL sundials_consts = - 8"
    by (simp_all add: sundials_consts_def)
  from full_rhs_modes [OF K, of demo_env 0 1 demo_mem 2 1 "\<lambda>t y mode w. (0, 3 * y, w)" 3 1 2 0] cb m
  have a: "fst (mriStep_FullRHS sundials_consts demo_env 0 1 0 2 demo_mem) = 0 \<and>
   fst (snd (mriStep_FullRHS sundials_consts demo_env 0 1 0 2 demo_mem)) = 5 \<and>
   ark_tempv2 (snd (snd (mriStep_FullRHS sundials_consts demo_env 0 1 0 2 demo_mem))) = 2 \<and>
   step_F (snd (snd (mriStep_FullRHS sundials_consts demo_env 0 1 0 2 demo_mem))) = [2, 0, 0]"
    by (simp add: ARK_SUCCESS_def demo_mem_def)
  from full_rhs_modes [OF K, of demo_env 0 1 demo_mem 2 1 "\<lambda>t y mode w. (0, 3 * y, w)" 3 1 7 0] m
  have b: "mriStep_FullRHS sundials_consts demo_env 0 1 0 7 demo_mem = (- 8, 0, demo_mem)"
    by simp
  from a b show ?thesis by simp
qed

subsection \<open>The predictor on the first step\<close>

text \<open>
  C10. On the first step, or the first step after a resize (\<open>initsetup\<close> set),
  \<^verbatim>\<open>mriStep_Predict\<close> returns the previous solution \<open>y_n\<close> as the guess and leaves
  the driver memory and the call log as they are, so no predictor of the host is
  consulted, for every predictor setting, provided the interpolation module is present
  or the predictor setting is not positive. With no interpolation module and a positive
  predictor setting it returns \<^verbatim>\<open>ARK_MEM_NULL\<close> and leaves the guess untouched.
\<close>

theorem predict_first_step:
  assumes "ark_initsetup s"
  shows "(ark_interp s \<or> step_predictor s \<le> 0 \<longrightarrow>
            mriStep_Predict K E istage yguess s = (ARK_SUCCESS, ark_yn s, s)) \<and>
         (\<not> ark_interp s \<and> 0 < step_predictor s \<longrightarrow>
            mriStep_Predict K E istage yguess s = (ARK_MEM_NULL K, yguess, s))"
  using assms by (auto simp add: mriStep_Predict_def N_VScale_def)

theorem predict_first_step_witness:
  "mriStep_Predict sundials_consts demo_env 1 0 (demo_mem\<lparr>step_predictor := 3\<rparr>)
     = (0, 1, demo_mem\<lparr>step_predictor := 3\<rparr>) \<and>
   mriStep_Predict sundials_consts demo_env 1 0 demo_mem_no_interp
     = (- 21, 0, demo_mem_no_interp)"
proof -
  have i: "ark_initsetup (demo_mem\<lparr>step_predictor := 3\<rparr>)" "ark_initsetup demo_mem_no_interp"
    by (simp_all add: demo_mem_def demo_mem_no_interp_def)
  have v: "ark_interp (demo_mem\<lparr>step_predictor := 3\<rparr>)" "\<not> ark_interp demo_mem_no_interp"
    "0 < step_predictor demo_mem_no_interp" "ark_yn (demo_mem\<lparr>step_predictor := 3\<rparr>) = 1"
    "ARK_MEM_NULL sundials_consts = - 21"
    by (simp_all add: demo_mem_def demo_mem_no_interp_def sundials_consts_def)
  from predict_first_step [OF i(1), of sundials_consts demo_env 1 0]
    predict_first_step [OF i(2), of sundials_consts demo_env 1 0] v
  show ?thesis by (simp add: ARK_SUCCESS_def)
qed

theorem predict_first_step_counterexample:
  "ark_initsetup demo_mem_no_interp \<and> step_predictor demo_mem_no_interp = 1 \<and>
   fst (mriStep_Predict sundials_consts demo_env 1 0 demo_mem_no_interp) = - 21 \<and>
   fst (snd (mriStep_Predict sundials_consts demo_env 1 0 demo_mem_no_interp))
     \<noteq> ark_yn demo_mem_no_interp"
  by (simp add: mriStep_Predict_def demo_mem_no_interp_def demo_mem_def sundials_consts_def)

subsection \<open>Validation of the coupling table: the rules\<close>

lemma lower_triangular_Gabs_sum:
  "CheckCoupling_lower_triangular_Gabs K s = realtype_sum K (upper_entries s)"
  by (simp add: CheckCoupling_lower_triangular_Gabs_def realtype_sum_def upper_entries_def
      fold_concat_map fold_map o_def del: upt_Suc)

lemma upper_entries_sum_list:
  "sum_list (upper_entries s) =
     (\<Sum>k<nat (MRIC_nmat (the (step_MRIC s))). \<Sum>i<nat (step_stages s).
        \<Sum>j = i + 1..<nat (step_stages s). \<bar>MRIC_G (the (step_MRIC s)) ! k ! i ! j\<bar>)"
  by (simp add: upper_entries_def sum_list_concat_map o_def interv_sum_list_conv_sum_set_nat
      atLeast0LessThan del: upt_Suc)

lemma upper_entries_set:
  "set (upper_entries s) =
     (\<Union>k \<in> {..<nat (MRIC_nmat (the (step_MRIC s)))}. \<Union>i \<in> {..<nat (step_stages s)}.
        (\<lambda>j. \<bar>MRIC_G (the (step_MRIC s)) ! k ! i ! j\<bar>) ` {i + 1..<nat (step_stages s)})"
  by (simp add: upper_entries_def atLeast0LessThan del: upt_Suc)

lemma demo_upper_rules:
  "CheckCoupling_no_DIRK_FAST sundials_consts demo_mem_upper"
  "CheckCoupling_sorted sundials_consts demo_mem_upper"
  "CheckCoupling_first_stage_Gabs sundials_consts demo_mem_upper
     \<le> 100 * UNIT_ROUNDOFF sundials_consts"
  "\<bar>1 - MRIC_c (the (step_MRIC demo_mem_upper)) ! nat (step_stages demo_mem_upper - 1)\<bar>
     \<le> 100 * UNIT_ROUNDOFF sundials_consts"
  "1 \<le> step_stages demo_mem_upper" "1 \<le> step_q demo_mem_upper" "ark_fixedstep demo_mem_upper"
  by (simp_all add: CheckCoupling_no_DIRK_FAST_def CheckCoupling_sorted_def
      CheckCoupling_first_stage_Gabs_def mriStep_StageType_def demo_mem_upper_def demo_mem_def
      demo_table_def numeral_3_eq_3 numeral_2_eq_2 upt_rec)
    (simp_all add: realtype_add_def realtype_sub_def sundials_consts_def double_eval)

lemma demo_upper_one_rules:
  "CheckCoupling_no_DIRK_FAST sundials_consts demo_mem_upper_one"
  "CheckCoupling_sorted sundials_consts demo_mem_upper_one"
  "CheckCoupling_first_stage_Gabs sundials_consts demo_mem_upper_one
     \<le> 100 * UNIT_ROUNDOFF sundials_consts"
  "\<bar>1 - MRIC_c (the (step_MRIC demo_mem_upper_one)) ! nat (step_stages demo_mem_upper_one - 1)\<bar>
     \<le> 100 * UNIT_ROUNDOFF sundials_consts"
  "1 \<le> step_stages demo_mem_upper_one" "1 \<le> step_q demo_mem_upper_one"
  "ark_fixedstep demo_mem_upper_one"
  "ARK_INVALID_TABLE sundials_consts \<noteq> ARK_SUCCESS"
  by (simp_all add: CheckCoupling_no_DIRK_FAST_def CheckCoupling_sorted_def
      CheckCoupling_first_stage_Gabs_def mriStep_StageType_def demo_mem_upper_one_def demo_mem_def
      demo_table_def ARK_SUCCESS_def numeral_3_eq_3 numeral_2_eq_2 upt_rec)
    (simp_all add: realtype_add_def realtype_sub_def sundials_consts_def double_eval)

lemma demo_exact_rules:
  "CheckCoupling_no_DIRK_FAST exact_consts demo_mem_upper_one"
  "CheckCoupling_sorted exact_consts demo_mem_upper_one"
  "CheckCoupling_first_stage_Gabs exact_consts demo_mem_upper_one
     \<le> 100 * UNIT_ROUNDOFF exact_consts"
  "\<bar>1 - MRIC_c (the (step_MRIC demo_mem_upper_one)) ! nat (step_stages demo_mem_upper_one - 1)\<bar>
     \<le> 100 * UNIT_ROUNDOFF exact_consts"
  "ARK_INVALID_TABLE exact_consts \<noteq> ARK_SUCCESS"
  by (simp_all add: CheckCoupling_no_DIRK_FAST_def CheckCoupling_sorted_def
      CheckCoupling_first_stage_Gabs_def mriStep_StageType_def demo_mem_upper_one_def demo_mem_def
      demo_table_def ARK_SUCCESS_def numeral_3_eq_3 numeral_2_eq_2 upt_rec)
    (simp_all add: realtype_add_def realtype_sub_def exact_consts_def sundials_consts_def)

text \<open>
  C4. For a table that meets the other rules, \<^verbatim>\<open>mriStep_CheckCoupling\<close> succeeds
  exactly when the sum of the absolute values of all entries \<open>G[k][i][j]\<close> with
  \<open>j > i\<close>, accumulated in \<^verbatim>\<open>realtype\<close> in the order of the loops, is not greater
  than the tolerance. With an arithmetic that does not round, that sum is the sum of
  the absolute values. When the rounding is monotone and the absolute values of the
  entries are \<^verbatim>\<open>realtype\<close> values, success implies that every such entry is within
  the tolerance by itself.
\<close>

theorem check_coupling_lower_triangular:
  assumes "ARK_INVALID_TABLE K \<noteq> ARK_SUCCESS"
    and "1 \<le> step_stages s" and "1 \<le> step_q s" and "1 \<le> step_p s \<or> ark_fixedstep s"
    and "CheckCoupling_no_DIRK_FAST K s" and "CheckCoupling_sorted K s"
    and "CheckCoupling_first_stage_Gabs K s \<le> 100 * UNIT_ROUNDOFF K"
    and "\<bar>1 - MRIC_c (the (step_MRIC s)) ! nat (step_stages s - 1)\<bar> \<le> 100 * UNIT_ROUNDOFF K"
  shows "(mriStep_CheckCoupling K s = ARK_SUCCESS \<longleftrightarrow>
            realtype_sum K (upper_entries s) \<le> 100 * UNIT_ROUNDOFF K) \<and>
         (realtype_round K = (\<lambda>x. x) \<longrightarrow>
            realtype_sum K (upper_entries s) =
              (\<Sum>k<nat (MRIC_nmat (the (step_MRIC s))). \<Sum>i<nat (step_stages s).
                 \<Sum>j = i + 1..<nat (step_stages s). \<bar>MRIC_G (the (step_MRIC s)) ! k ! i ! j\<bar>)) \<and>
         (rounding_monotone K \<and> (\<forall>x \<in> set (upper_entries s). realtype_round K x = x) \<and>
          mriStep_CheckCoupling K s = ARK_SUCCESS \<longrightarrow> spec_lower_triangular K s)"
proof -
  have iff: "mriStep_CheckCoupling K s = ARK_SUCCESS \<longleftrightarrow>
      realtype_sum K (upper_entries s) \<le> 100 * UNIT_ROUNDOFF K"
    using assms by (auto simp add: mriStep_CheckCoupling_def Let_def lower_triangular_Gabs_sum)
  have exact: "realtype_sum K (upper_entries s) =
      (\<Sum>k<nat (MRIC_nmat (the (step_MRIC s))). \<Sum>i<nat (step_stages s).
         \<Sum>j = i + 1..<nat (step_stages s). \<bar>MRIC_G (the (step_MRIC s)) ! k ! i ! j\<bar>)"
    if "realtype_round K = (\<lambda>x. x)"
    using that by (simp only: realtype_sum_exact upper_entries_sum_list)
  have each: "spec_lower_triangular K s"
    if mono: "rounding_monotone K"
      and repr: "\<forall>x \<in> set (upper_entries s). realtype_round K x = x"
      and ok: "mriStep_CheckCoupling K s = ARK_SUCCESS"
    unfolding spec_lower_triangular_def
  proof (intro ballI)
    fix k i j
    assume "k \<in> {..<nat (MRIC_nmat (the (step_MRIC s)))}" "i \<in> {..<nat (step_stages s)}"
      "j \<in> {i + 1..<nat (step_stages s)}"
    then have mem: "\<bar>MRIC_G (the (step_MRIC s)) ! k ! i ! j\<bar> \<in> set (upper_entries s)"
      unfolding upper_entries_set by blast
    have good: "0 \<le> x \<and> realtype_round K x = x" if "x \<in> set (upper_entries s)" for x
    proof
      from that show "0 \<le> x" unfolding upper_entries_set by auto
      from repr that show "realtype_round K x = x" by (rule bspec)
    qed
    from realtype_sum_ge [OF mono good mem]
    have "\<bar>MRIC_G (the (step_MRIC s)) ! k ! i ! j\<bar> \<le> realtype_sum K (upper_entries s)" .
    moreover from iff ok have "realtype_sum K (upper_entries s) \<le> 100 * UNIT_ROUNDOFF K"
      by blast
    ultimately show "\<bar>MRIC_G (the (step_MRIC s)) ! k ! i ! j\<bar> \<le> 100 * UNIT_ROUNDOFF K"
      by linarith
  qed
  from iff exact each show ?thesis by blast
qed

theorem check_coupling_lower_triangular_witness:
  "mriStep_CheckCoupling sundials_consts demo_mem_upper_one = ARK_SUCCESS \<and>
   realtype_sum sundials_consts (upper_entries demo_mem_upper_one) = 60 / 2 ^ 52 \<and>
   spec_lower_triangular sundials_consts demo_mem_upper_one \<and>
   realtype_sum exact_consts (upper_entries demo_mem_upper_one) = 60 / 2 ^ 52"
proof -
  have u: "upper_entries demo_mem_upper_one = [0, 0, 60 / 2 ^ 52]"
    by (simp add: upper_entries_def demo_mem_upper_one_def demo_mem_def demo_table_def
        numeral_3_eq_3 numeral_2_eq_2 upt_rec)
  have v: "realtype_sum sundials_consts [0, 0, 60 / 2 ^ 52] = 60 / 2 ^ 52"
    "\<forall>x \<in> set [0, 0, 60 / 2 ^ 52]. realtype_round sundials_consts x = x"
    "60 / 2 ^ 52 \<le> 100 * UNIT_ROUNDOFF sundials_consts"
    by (simp_all add: realtype_sum_def realtype_add_def sundials_consts_def double_eval)
  have e: "realtype_round exact_consts = (\<lambda>x. x)" "realtype_sum exact_consts [0, 0, 60 / 2 ^ 52] = 60 / 2 ^ 52"
    by (simp_all add: exact_consts_def realtype_sum_def realtype_add_def)
  have p: "1 \<le> step_stages demo_mem_upper_one" "1 \<le> step_q demo_mem_upper_one"
    "1 \<le> step_p demo_mem_upper_one \<or> ark_fixedstep demo_mem_upper_one"
    using demo_upper_one_rules(5-7) by simp_all
  note d = check_coupling_lower_triangular [OF demo_upper_one_rules(8) p demo_upper_one_rules(1-4)]
  note x = check_coupling_lower_triangular [OF demo_exact_rules(5) p demo_exact_rules(1-4)]
  from d have 1: "mriStep_CheckCoupling sundials_consts demo_mem_upper_one = ARK_SUCCESS"
    unfolding u using v(1,3) by simp
  from d 1 double_rounding_monotone v(2)
  have 2: "spec_lower_triangular sundials_consts demo_mem_upper_one"
    unfolding u by blast
  from 1 2 v(1) e(2) show ?thesis unfolding u by simp
qed

theorem check_coupling_lower_triangular_counterexample:
  "spec_lower_triangular sundials_consts demo_mem_upper \<and>
   1 \<le> step_stages demo_mem_upper \<and> 1 \<le> step_q demo_mem_upper \<and>
   ark_fixedstep demo_mem_upper \<and>
   CheckCoupling_no_DIRK_FAST sundials_consts demo_mem_upper \<and>
   CheckCoupling_sorted sundials_consts demo_mem_upper \<and>
   CheckCoupling_first_stage_Gabs sundials_consts demo_mem_upper
     \<le> 100 * UNIT_ROUNDOFF sundials_consts \<and>
   \<bar>1 - MRIC_c (the (step_MRIC demo_mem_upper)) ! nat (step_stages demo_mem_upper - 1)\<bar>
     \<le> 100 * UNIT_ROUNDOFF sundials_consts \<and>
   mriStep_CheckCoupling sundials_consts demo_mem_upper = - 41 \<and>
   mriStep_CheckCoupling sundials_consts demo_mem_upper \<noteq> ARK_SUCCESS"
proof -
  have "spec_lower_triangular sundials_consts demo_mem_upper"
    by (simp add: spec_lower_triangular_def demo_mem_upper_def demo_mem_def demo_table_def
        sundials_consts_def numeral_3_eq_3 numeral_2_eq_2 lessThan_Suc atLeastLessThanSuc)
  moreover have "CheckCoupling_lower_triangular_Gabs sundials_consts demo_mem_upper = 120 / 2 ^ 52"
    by (simp add: CheckCoupling_lower_triangular_Gabs_def
        demo_mem_upper_def demo_mem_def demo_table_def numeral_3_eq_3 numeral_2_eq_2 upt_rec)
      (simp add: realtype_add_def sundials_consts_def double_eval)
  then have "mriStep_CheckCoupling sundials_consts demo_mem_upper = - 41"
    by (simp add: mriStep_CheckCoupling_def Let_def demo_mem_upper_def demo_mem_def
        sundials_consts_def)
  ultimately show ?thesis using demo_upper_rules by (simp add: ARK_SUCCESS_def)
qed

text \<open>
  C3. When the last abscissa of the table supplied at initialization is further than
  the tolerance from one, \<^verbatim>\<open>mriStep_CheckCoupling\<close> returns
  \<^verbatim>\<open>ARK_INVALID_TABLE\<close>, and \<^verbatim>\<open>mriStep_Init\<close>, called for a first initialization,
  returns \<^verbatim>\<open>ARK_ILL_INPUT\<close>.
\<close>

theorem init_rejects_last_abscissa:
  assumes "100 * UNIT_ROUNDOFF K < \<bar>1 - MRIC_c MRIC ! nat (step_stages s - 1)\<bar>"
    and "step_MRIC s = Some MRIC"
    and "ARK_INVALID_TABLE K \<noteq> ARK_SUCCESS"
    and "FIRST_INIT K \<noteq> RESET_INIT K"
  shows "mriStep_CheckCoupling K s = ARK_INVALID_TABLE K \<and>
         fst (mriStep_Init K E (FIRST_INIT K) s) = ARK_ILL_INPUT K"
proof -
  have chk: "mriStep_CheckCoupling K s' = ARK_INVALID_TABLE K"
    if "step_MRIC s' = Some MRIC" and "step_stages s' = step_stages s" for s' :: "('a, 'b) ARKodeMem"
    using assms(1) that by (simp add: mriStep_CheckCoupling_def Let_def)
  have "fst (Init_first K E s) = Some (ARK_ILL_INPUT K)"
    using assms(2,3) by (simp add: Init_first_def mriStep_SetCoupling_def chk Let_def)
  then show ?thesis
    using assms(2,4) chk [of s]
    by (cases "Init_first K E s") (auto simp add: mriStep_Init_def)
qed

theorem init_rejects_last_abscissa_witness:
  "mriStep_CheckCoupling sundials_consts demo_mem_c09 = - 41 \<and>
   fst (mriStep_Init sundials_consts demo_env 0 demo_mem_c09) = - 22"
proof -
  have h: "100 * UNIT_ROUNDOFF sundials_consts
             < \<bar>1 - MRIC_c (demo_table\<lparr>MRIC_c := [0, 1 / 2, 9 / 10]\<rparr>) ! nat (step_stages demo_mem_c09 - 1)\<bar>"
    "step_MRIC demo_mem_c09 = Some (demo_table\<lparr>MRIC_c := [0, 1 / 2, 9 / 10]\<rparr>)"
    "ARK_INVALID_TABLE sundials_consts \<noteq> ARK_SUCCESS"
    "FIRST_INIT sundials_consts \<noteq> RESET_INIT sundials_consts"
    by (simp_all add: demo_mem_c09_def demo_mem_def demo_table_def sundials_consts_def
        ARK_SUCCESS_def numeral_2_eq_2)
  from init_rejects_last_abscissa [OF h, of demo_env] show ?thesis
    by (simp add: sundials_consts_def)
qed

theorem init_rejects_last_abscissa_counterexample:
  "MRIC_c (the (step_MRIC demo_mem_c09)) ! nat (step_stages demo_mem_c09 - 1) = 9 / 10 \<and>
   1 \<le> step_stages demo_mem_c09 \<and> 1 \<le> step_q demo_mem_c09 \<and> ark_fixedstep demo_mem_c09 \<and>
   CheckCoupling_lower_triangular_Gabs sundials_consts demo_mem_c09
     \<le> 100 * UNIT_ROUNDOFF sundials_consts \<and>
   CheckCoupling_no_DIRK_FAST sundials_consts demo_mem_c09 \<and>
   CheckCoupling_sorted sundials_consts demo_mem_c09 \<and>
   CheckCoupling_first_stage_Gabs sundials_consts demo_mem_c09
     \<le> 100 * UNIT_ROUNDOFF sundials_consts \<and>
   fst (mriStep_Init sundials_consts demo_env (FIRST_INIT sundials_consts) demo_mem_c09)
     = ARK_ILL_INPUT sundials_consts \<and>
   fst (mriStep_Init sundials_consts demo_env (FIRST_INIT sundials_consts) demo_mem_c09)
     \<noteq> ARK_INVALID_TABLE sundials_consts"
proof -
  have "CheckCoupling_lower_triangular_Gabs sundials_consts demo_mem_c09 = 0"
    "CheckCoupling_no_DIRK_FAST sundials_consts demo_mem_c09"
    "CheckCoupling_sorted sundials_consts demo_mem_c09"
    "CheckCoupling_first_stage_Gabs sundials_consts demo_mem_c09 = 0"
    by (simp_all add: CheckCoupling_lower_triangular_Gabs_def CheckCoupling_no_DIRK_FAST_def
        CheckCoupling_sorted_def CheckCoupling_first_stage_Gabs_def mriStep_StageType_def
        demo_mem_c09_def demo_mem_def demo_table_def numeral_3_eq_3 numeral_2_eq_2 upt_rec)
      (simp_all add: realtype_add_def realtype_sub_def sundials_consts_def double_eval)
  then show ?thesis
    by (simp add: mriStep_Init_def Init_first_def mriStep_SetCoupling_def
        mriStep_CheckCoupling_def demo_mem_c09_def demo_mem_def demo_table_def
        sundials_consts_def ARK_SUCCESS_def Let_def)
qed

subsection \<open>The forcing of a fast stage\<close>





lemma evolve_calls_append [simp]:
  "evolve_calls (xs @ ys) = evolve_calls xs @ evolve_calls ys"
  by (induction xs rule: evolve_calls.induct) simp_all




subsection \<open>What the blocks of a step leave unchanged\<close>

lemma fs_flags_append [simp]: "fs_flags (xs @ ys) = fs_flags xs @ fs_flags ys"
  by (induction xs rule: fs_flags.induct) simp_all

lemma reset_calls_append [simp]: "reset_calls (xs @ ys) = reset_calls xs @ reset_calls ys"
  by (induction xs rule: reset_calls.induct) simp_all

lemma fs_args_append [simp]: "fs_args (xs @ ys) = fs_args xs @ fs_args ys"
  by (induction xs rule: fs_args.induct) simp_all

lemma nls_flags_append [simp]: "nls_flags (xs @ ys) = nls_flags xs @ nls_flags ys"
  by (induction xs rule: nls_flags.induct) simp_all

lemma nls_rhs_evals_append [simp]:
  "nls_rhs_evals (xs @ ys) = nls_rhs_evals xs + nls_rhs_evals ys"
  by (induction xs rule: nls_rhs_evals.induct) simp_all

lemma step_summary_update [simp]:
  "step_summary (s\<lparr>ark_ycur := x0\<rparr>) = step_summary s"
  "step_summary (s\<lparr>ark_tempv3 := x1\<rparr>) = step_summary s"
  "step_summary (s\<lparr>ark_user_data := x2\<rparr>) = step_summary s"
  "step_summary (s\<lparr>step_rkcoeffs := x3\<rparr>) = step_summary s"
  "step_summary (s\<lparr>step_F := x4\<rparr>) = step_summary s"
  "step_summary (s\<lparr>step_sdata := x5\<rparr>) = step_summary s"
  "step_summary (s\<lparr>step_zpred := x6\<rparr>) = step_summary s"
  "step_summary (s\<lparr>step_zcor := x7\<rparr>) = step_summary s"
  "step_summary (s\<lparr>step_cvals := x8\<rparr>) = step_summary s"
  "step_summary (s\<lparr>step_Xvecs := x9\<rparr>) = step_summary s"
  "step_summary (s\<lparr>step_istage := x10\<rparr>) = step_summary s"
  "step_summary (s\<lparr>step_gamma := x11\<rparr>) = step_summary s"
  "step_summary (s\<lparr>step_gammap := x12\<rparr>) = step_summary s"
  "step_summary (s\<lparr>step_gamrat := x13\<rparr>) = step_summary s"
  "step_summary (s\<lparr>stepper_tshift := x14\<rparr>) = step_summary s"
  "step_summary (s\<lparr>stepper_tscale := x15\<rparr>) = step_summary s"
  "step_summary (s\<lparr>stepper_forcing := x16\<rparr>) = step_summary s"
  "step_summary (s\<lparr>stepper_last_flag := x17\<rparr>) = step_summary s"
  by (simp_all add: step_summary_def own_nfs_def)

lemma step_summary_log [simp]:
  "step_summary (log_call (Call_ProcessStage t y r) s) = step_summary s"
  "step_summary (log_call (Call_fs_nls t y r) s) = step_summary s"
  "step_summary (log_call (Call_pre_inner_evolve t fo n r) s) = step_summary s"
  "step_summary (log_call (Call_post_inner_evolve t y r) s) = step_summary s"
  "step_summary (log_call (Call_stage_predict t y r) s) = step_summary s"
  "step_summary (log_call (Call_evolve a b fo t0 t1 y r) s) = step_summary s"
  "step_summary (log_call (Call_fullrhs t y m r) s) = step_summary s"
  "step_summary (log_call (Call_NLS_setup r) s) = step_summary s"
  "step_summary (log_call (Call_arkPredict_MaximumOrder t r) s) = step_summary s"
  "step_summary (log_call (Call_arkPredict_VariableOrder t r) s) = step_summary s"
  "step_summary (log_call (Call_arkPredict_CutoffOrder t r) s) = step_summary s"
  "step_summary (log_call (Call_arkPredict_Bootstrap h t r) s) = step_summary s"
  by (simp_all add: step_summary_def own_nfs_def log_call_def)

lemma Nls_run_summary:
  "step_summary (snd (snd (Nls_run E run s))) =
     step_summary (s\<lparr>step_nfs := step_nfs s + int (fst (snd (Nls_run E run s)))\<rparr>)"
proof (induction run arbitrary: s)
  case (Nls_return flag zcor w)
  show ?case by (simp add: step_summary_def own_nfs_def)
next
  case (Nls_evaluate zcor w continue)
  let ?y = "N_VLinearSum 1 (step_zpred s) 1 zcor"
  let ?res = "fs E (ark_tcur s) ?y w"
  let ?s1 = "log_call (Call_fs_nls (ark_tcur s) ?y (fst ?res))
               (s\<lparr>step_nfs := step_nfs s + 1, ark_user_data := snd (snd ?res)\<rparr>)"
  have "continue ?res \<in> range continue" by (rule rangeI)
  from Nls_evaluate.IH [OF this, of ?s1] show ?case
    by (simp add: Let_def step_summary_def own_nfs_def log_call_def)
qed

lemma step_summary_Nls [simp]:
  "step_summary (snd (mriStep_Nls E nflag s)) = step_summary s"
  using Nls_run_summary [of E "nls_solve E (hide_trace s) nflag" s]
  by (simp add: mriStep_Nls_def step_summary_def own_nfs_def log_call_def split_beta)

lemma ComputeInnerForcing_loop_summary [simp]:
  "step_summary (snd (ComputeInnerForcing_loop K i r ks s)) = step_summary s"
  by (induction ks arbitrary: s) (simp_all add: Let_def split_beta)

lemma ComputeInnerForcing_summary [simp]:
  "step_summary (snd (mriStep_ComputeInnerForcing K i cdiff s)) = step_summary s"
  by (simp add: mriStep_ComputeInnerForcing_def Let_def)

lemma Evolve_summary [simp]:
  "step_summary (snd (snd (mriStepInnerStepper_Evolve K E t0 tout y s))) = step_summary s"
  by (simp add: mriStepInnerStepper_Evolve_def Let_def split_beta split: option.splits)

lemma StageERKFast_evolve_summary [simp]:
  "step_summary (snd (StageERKFast_evolve K E t0 s)) = step_summary s"
  by (simp add: StageERKFast_evolve_def Let_def split_beta split: option.splits)

lemma StageERKFast_summary [simp]:
  "step_summary (snd (mriStep_StageERKFast K E is s)) = step_summary s"
  by (simp add: mriStep_StageERKFast_def Let_def split_beta)

lemma StageERKNoFast_summary [simp]:
  "step_summary (snd (mriStep_StageERKNoFast K is s)) = step_summary s"
  by (simp add: mriStep_StageERKNoFast_def Let_def split_beta)

lemma Predict_summary [simp]:
  "step_summary (snd (snd (mriStep_Predict K E istage yguess s))) = step_summary s"
  by (simp add: mriStep_Predict_def Let_def split_beta)

lemma StageSetup_summary [simp]:
  "step_summary (snd (mriStep_StageSetup K s)) = step_summary s"
  by (simp add: mriStep_StageSetup_def Let_def split_beta)

lemma StageDIRKNoFast_solve_summary [simp]:
  "step_summary (snd (snd (StageDIRKNoFast_solve K E is nflag s))) = step_summary s"
  by (simp add: StageDIRKNoFast_solve_def Let_def split_beta)

lemma StageDIRKNoFast_summary [simp]:
  "step_summary (snd (snd (mriStep_StageDIRKNoFast K E is nflag s))) = step_summary s"
  by (simp add: mriStep_StageDIRKNoFast_def Let_def split_beta split: option.splits)

lemma TakeStep_dispatch_summary [simp]:
  "step_summary (snd (snd (TakeStep_dispatch K E is nflag s))) = step_summary s"
  by (simp add: TakeStep_dispatch_def mriStep_StageDIRKFast_def Let_def split_beta)

lemma TakeStep_postprocess_summary [simp]:
  "step_summary (snd (TakeStep_postprocess K E s)) = step_summary s"
  by (simp add: TakeStep_postprocess_def Let_def split_beta split: option.splits)

lemma TakeStep_nls_setup_summary [simp]:
  "step_summary (snd (TakeStep_nls_setup K E s)) = step_summary s"
  by (simp add: TakeStep_nls_setup_def Let_def split_beta split: option.splits)

lemma step_summaryD:
  assumes "step_summary a = step_summary b"
  shows "step_stages a = step_stages b" and "step_stagetypes a = step_stagetypes b"
    and "ark_tcur a = ark_tcur b" and "own_nfs a = own_nfs b"
    and "fs_flags (trace a) = fs_flags (trace b)"
    and "reset_calls (trace a) = reset_calls (trace b)"
    and "ark_tn a = ark_tn b" and "ark_h a = ark_h b" and "step_MRIC a = step_MRIC b"
    and "fs_args (trace a) = fs_args (trace b)"
  using assms by (simp_all add: step_summary_def)

lemma TakeStep_reset_effect:
  "step_stages (snd (TakeStep_reset K E is s)) = step_stages s"
  "step_stagetypes (snd (TakeStep_reset K E is s)) = step_stagetypes s"
  "ark_tcur (snd (TakeStep_reset K E is s)) = ark_tcur s"
  "ark_ycur (snd (TakeStep_reset K E is s)) = ark_ycur s"
  "own_nfs (snd (TakeStep_reset K E is s)) = own_nfs s"
  "fs_flags (trace (snd (TakeStep_reset K E is s))) = fs_flags (trace s)"
  "reset_calls (trace (snd (TakeStep_reset K E is s))) =
     reset_calls (trace s) @
     (if (step_stagetypes s ! nat is \<noteq> MRISTAGE_ERK_FAST K \<or> ProcessStage E \<noteq> None) \<and>
         ops_reset E \<noteq> None
      then [(ark_tcur s, ark_ycur s)] else [])"
  "ark_tn (snd (TakeStep_reset K E is s)) = ark_tn s"
  "ark_h (snd (TakeStep_reset K E is s)) = ark_h s"
  "step_MRIC (snd (TakeStep_reset K E is s)) = step_MRIC s"
  "fs_args (trace (snd (TakeStep_reset K E is s))) = fs_args (trace s)"
  "nls_flags (trace (snd (TakeStep_reset K E is s))) = nls_flags (trace s)"
  by (auto simp add: TakeStep_reset_def mriStepInnerStepper_Reset_def log_call_def own_nfs_def
      Let_def split_beta split: option.splits)

lemma TakeStep_slow_rhs_effect:
  "step_stages (snd (TakeStep_slow_rhs K E is s)) = step_stages s"
  "step_stagetypes (snd (TakeStep_slow_rhs K E is s)) = step_stagetypes s"
  "ark_tcur (snd (TakeStep_slow_rhs K E is s)) = ark_tcur s"
  "ark_ycur (snd (TakeStep_slow_rhs K E is s)) = ark_ycur s"
  "reset_calls (trace (snd (TakeStep_slow_rhs K E is s))) = reset_calls (trace s)"
  "own_nfs (snd (TakeStep_slow_rhs K E is s)) =
     own_nfs s + (if is < step_stages s - 1 then 1 else 0)"
  "fs_flags (trace (snd (TakeStep_slow_rhs K E is s))) =
     fs_flags (trace s) @
     (if is < step_stages s - 1
      then [fst (fs E (ark_tcur s) (ark_ycur s) (ark_user_data s))] else [])"
  "fst (TakeStep_slow_rhs K E is s) =
     (if is < step_stages s - 1
      then (if fst (fs E (ark_tcur s) (ark_ycur s) (ark_user_data s)) < 0
            then Some (ARK_RHSFUNC_FAIL K)
            else if fst (fs E (ark_tcur s) (ark_ycur s) (ark_user_data s)) > 0
            then Some (ARK_UNREC_RHSFUNC_ERR K) else None)
      else None)"
  "ark_tn (snd (TakeStep_slow_rhs K E is s)) = ark_tn s"
  "ark_h (snd (TakeStep_slow_rhs K E is s)) = ark_h s"
  "step_MRIC (snd (TakeStep_slow_rhs K E is s)) = step_MRIC s"
  "fs_args (trace (snd (TakeStep_slow_rhs K E is s))) =
     fs_args (trace s) @ (if is < step_stages s - 1 then [(ark_tcur s, ark_ycur s)] else [])"
  "nls_flags (trace (snd (TakeStep_slow_rhs K E is s))) = nls_flags (trace s)"
  by (auto simp add: TakeStep_slow_rhs_def call_fs_def log_call_def own_nfs_def
      Let_def split_beta)

text \<open>The loop body, unfolded into its blocks.\<close>

lemma TakeStep_stage_unfold:
  fixes K E "is" nflag s
  defines "s0 \<equiv> s\<lparr>ark_tcur := ark_tn s + MRIC_c (the (step_MRIC s)) ! nat is * ark_h s\<rparr>"
  defines "D \<equiv> TakeStep_dispatch K E is nflag s0"
  defines "P \<equiv> TakeStep_postprocess K E (snd (snd D))"
  defines "R \<equiv> TakeStep_reset K E is (snd P)"
  defines "S \<equiv> TakeStep_slow_rhs K E is (snd R)"
  shows "TakeStep_stage K E is nflag s =
     (if fst D \<noteq> ARK_SUCCESS then (Some (fst D), fst (snd D), snd (snd D))
      else if fst P \<noteq> None then (fst P, fst (snd D), snd P)
      else if fst R \<noteq> None then (fst R, fst (snd D), snd R)
      else (fst S, fst (snd D), snd S))"
  unfolding s0_def D_def P_def R_def S_def
  by (auto simp add: TakeStep_stage_def Let_def split_beta split: option.splits prod.splits)

lemma TakeStep_stage_stages:
  "step_stages (snd (snd (TakeStep_stage K E is nflag s))) = step_stages s"
proof -
  let ?s0 = "s\<lparr>ark_tcur := ark_tn s + MRIC_c (the (step_MRIC s)) ! nat is * ark_h s\<rparr>"
  let ?D = "TakeStep_dispatch K E is nflag ?s0"
  let ?P = "TakeStep_postprocess K E (snd (snd ?D))"
  have 1: "step_stages (snd (snd ?D)) = step_stages s"
    using step_summaryD(1) [OF TakeStep_dispatch_summary [of K E "is" nflag ?s0]] by simp
  have 2: "step_stages (snd ?P) = step_stages s"
    using step_summaryD(1) [OF TakeStep_postprocess_summary [of K E "snd (snd ?D)"]] 1 by simp
  show ?thesis
    by (simp add: TakeStep_stage_unfold TakeStep_reset_effect TakeStep_slow_rhs_effect 1 2)
qed

lemma TakeStep_stage_nfs:
  assumes "fst (TakeStep_stage K E is nflag s) = None"
  shows "own_nfs (snd (snd (TakeStep_stage K E is nflag s))) =
           own_nfs s + (if is < step_stages s - 1 then 1 else 0)"
proof -
  let ?s0 = "s\<lparr>ark_tcur := ark_tn s + MRIC_c (the (step_MRIC s)) ! nat is * ark_h s\<rparr>"
  let ?D = "TakeStep_dispatch K E is nflag ?s0"
  let ?P = "TakeStep_postprocess K E (snd (snd ?D))"
  have 0: "own_nfs ?s0 = own_nfs s" by (simp add: own_nfs_def)
  have 1: "step_stages (snd (snd ?D)) = step_stages s" "own_nfs (snd (snd ?D)) = own_nfs s"
    using step_summaryD(1,4) [OF TakeStep_dispatch_summary [of K E "is" nflag ?s0]] 0 by simp_all
  have 2: "step_stages (snd ?P) = step_stages s" "own_nfs (snd ?P) = own_nfs s"
    using step_summaryD(1,4) [OF TakeStep_postprocess_summary [of K E "snd (snd ?D)"]] 1
    by simp_all
  from assms show ?thesis
    by (simp add: TakeStep_stage_unfold TakeStep_reset_effect TakeStep_slow_rhs_effect 1 2
        split: if_splits)
qed

lemma TakeStep_stage_fs_flags:
  "\<exists>fl. fs_flags (trace (snd (snd (TakeStep_stage K E is nflag s)))) = fs_flags (trace s) @ fl \<and>
     (fst (TakeStep_stage K E is nflag s) = None \<longrightarrow>
        fl = (if is < step_stages s - 1 then [0] else [])) \<and>
     (\<forall>x \<in> set fl.
        (0 < x \<longrightarrow> fst (TakeStep_stage K E is nflag s) = Some (ARK_UNREC_RHSFUNC_ERR K)) \<and>
        (x < 0 \<longrightarrow> fst (TakeStep_stage K E is nflag s) = Some (ARK_RHSFUNC_FAIL K)))"
proof -
  let ?s0 = "s\<lparr>ark_tcur := ark_tn s + MRIC_c (the (step_MRIC s)) ! nat is * ark_h s\<rparr>"
  let ?D = "TakeStep_dispatch K E is nflag ?s0"
  let ?P = "TakeStep_postprocess K E (snd (snd ?D))"
  let ?R = "TakeStep_reset K E is (snd ?P)"
  have 0: "fs_flags (trace ?s0) = fs_flags (trace s)" by simp
  have 1: "step_stages (snd (snd ?D)) = step_stages s"
    "fs_flags (trace (snd (snd ?D))) = fs_flags (trace s)"
    using step_summaryD(1,5) [OF TakeStep_dispatch_summary [of K E "is" nflag ?s0]] 0 by simp_all
  have 2: "step_stages (snd ?P) = step_stages s" "fs_flags (trace (snd ?P)) = fs_flags (trace s)"
    using step_summaryD(1,5) [OF TakeStep_postprocess_summary [of K E "snd (snd ?D)"]] 1
    by simp_all
  let ?x = "fst (fs E (ark_tcur (snd ?R)) (ark_ycur (snd ?R)) (ark_user_data (snd ?R)))"
  show ?thesis
  proof (cases "fst ?D = ARK_SUCCESS \<and> fst ?P = None \<and> fst ?R = None \<and> is < step_stages s - 1")
    case True
    then show ?thesis
      by (intro exI [of _ "[?x]"])
        (auto simp add: TakeStep_stage_unfold TakeStep_reset_effect TakeStep_slow_rhs_effect 1 2)
  next
    case False
    then show ?thesis
      by (intro exI [of _ "[]"])
        (auto simp add: TakeStep_stage_unfold TakeStep_reset_effect TakeStep_slow_rhs_effect 1 2)
  qed
qed

lemma TakeStep_loop_unfold:
  "TakeStep_loop K E (i # rest) nflag s =
     (if fst (TakeStep_stage K E (int i) nflag s) \<noteq> None then TakeStep_stage K E (int i) nflag s
      else TakeStep_loop K E rest (fst (snd (TakeStep_stage K E (int i) nflag s)))
             (snd (snd (TakeStep_stage K E (int i) nflag s))))"
  by (cases "TakeStep_stage K E (int i) nflag s") (auto split: option.splits)

lemma TakeStep_loop_stages:
  "step_stages (snd (snd (TakeStep_loop K E iss nflag s))) = step_stages s"
proof (induction iss arbitrary: nflag s)
  case Nil
  then show ?case by simp
next
  case (Cons i iss)
  then show ?case
    by (simp add: TakeStep_loop_unfold TakeStep_stage_stages del: TakeStep_loop.simps)
qed

lemma TakeStep_loop_nfs:
  "fst (TakeStep_loop K E iss nflag s) = None \<Longrightarrow>
   own_nfs (snd (snd (TakeStep_loop K E iss nflag s))) =
     own_nfs s + int (length (filter (\<lambda>i. int i < step_stages s - 1) iss))"
proof (induction iss arbitrary: nflag s)
  case Nil
  then show ?case by simp
next
  case (Cons i iss)
  let ?T = "TakeStep_stage K E (int i) nflag s"
  from Cons.prems have T: "fst ?T = None"
    by (simp add: TakeStep_loop_unfold del: TakeStep_loop.simps split: if_splits)
  with Cons.prems have L: "fst (TakeStep_loop K E iss (fst (snd ?T)) (snd (snd ?T))) = None"
    by (simp add: TakeStep_loop_unfold del: TakeStep_loop.simps)
  from Cons.IH [OF L] T show ?case
    by (simp add: TakeStep_loop_unfold TakeStep_stage_nfs TakeStep_stage_stages
        del: TakeStep_loop.simps)
qed

lemma TakeStep_loop_fs_flags:
  "\<exists>fl. fs_flags (trace (snd (snd (TakeStep_loop K E iss nflag s)))) = fs_flags (trace s) @ fl \<and>
     (fst (TakeStep_loop K E iss nflag s) = None \<longrightarrow>
        fl = replicate (length (filter (\<lambda>i. int i < step_stages s - 1) iss)) 0) \<and>
     (\<forall>x \<in> set fl.
        (0 < x \<longrightarrow> fst (TakeStep_loop K E iss nflag s) = Some (ARK_UNREC_RHSFUNC_ERR K)) \<and>
        (x < 0 \<longrightarrow> fst (TakeStep_loop K E iss nflag s) = Some (ARK_RHSFUNC_FAIL K)))"
proof (induction iss arbitrary: nflag s)
  case Nil
  then show ?case by simp
next
  case (Cons i iss)
  let ?T = "TakeStep_stage K E (int i) nflag s"
  from TakeStep_stage_fs_flags [of K E "int i" nflag s]
  obtain fl1 where fl1': "fs_flags (trace (snd (snd ?T))) = fs_flags (trace s) @ fl1 \<and>
     (fst ?T = None \<longrightarrow> fl1 = (if int i < step_stages s - 1 then [0] else [])) \<and>
     (\<forall>x \<in> set fl1.
        (0 < x \<longrightarrow> fst ?T = Some (ARK_UNREC_RHSFUNC_ERR K)) \<and>
        (x < 0 \<longrightarrow> fst ?T = Some (ARK_RHSFUNC_FAIL K)))" ..
  note fl1 = conjunct1 [OF fl1'] conjunct1 [OF conjunct2 [OF fl1']]
    conjunct2 [OF conjunct2 [OF fl1']]
  show ?case
  proof (cases "fst ?T = None")
    case False
    then have eq: "TakeStep_loop K E (i # iss) nflag s = ?T"
      by (simp add: TakeStep_loop_unfold del: TakeStep_loop.simps)
    have b: "fst ?T = None \<longrightarrow>
        fl1 = replicate (length (filter (\<lambda>i. int i < step_stages s - 1) (i # iss))) 0"
      using False by blast
    show ?thesis
      unfolding eq using fl1(1) b fl1(3) by (intro exI [of _ fl1] conjI)
  next
    case True
    let ?L = "TakeStep_loop K E iss (fst (snd ?T)) (snd (snd ?T))"
    from Cons.IH [of "fst (snd ?T)" "snd (snd ?T)"]
    obtain fl2 where fl2': "fs_flags (trace (snd (snd ?L))) = fs_flags (trace (snd (snd ?T))) @ fl2 \<and>
      (fst ?L = None \<longrightarrow>
         fl2 = replicate (length (filter (\<lambda>i. int i < step_stages (snd (snd ?T)) - 1) iss)) 0) \<and>
      (\<forall>x \<in> set fl2.
        (0 < x \<longrightarrow> fst ?L = Some (ARK_UNREC_RHSFUNC_ERR K)) \<and>
        (x < 0 \<longrightarrow> fst ?L = Some (ARK_RHSFUNC_FAIL K)))" ..
    note fl2 = conjunct1 [OF fl2'] conjunct1 [OF conjunct2 [OF fl2']]
      conjunct2 [OF conjunct2 [OF fl2']]
    have eq: "TakeStep_loop K E (i # iss) nflag s = ?L"
      using True by (simp add: TakeStep_loop_unfold del: TakeStep_loop.simps)
    from True fl1(2) have z: "fl1 = (if int i < step_stages s - 1 then [0] else [])" by simp
    have st: "step_stages (snd (snd ?T)) = step_stages s" by (rule TakeStep_stage_stages)
    have a: "fs_flags (trace (snd (snd ?L))) = fs_flags (trace s) @ (fl1 @ fl2)"
      using fl1(1) fl2(1) by simp
    have b: "fst ?L = None \<longrightarrow>
        fl1 @ fl2 = replicate (length (filter (\<lambda>i. int i < step_stages s - 1) (i # iss))) 0"
      using fl2(2) z st by simp
    have c: "\<forall>x \<in> set (fl1 @ fl2).
        (0 < x \<longrightarrow> fst ?L = Some (ARK_UNREC_RHSFUNC_ERR K)) \<and>
        (x < 0 \<longrightarrow> fst ?L = Some (ARK_RHSFUNC_FAIL K))"
    proof
      fix x assume "x \<in> set (fl1 @ fl2)"
      moreover have "y = 0" if "y \<in> set fl1" for y
        using that z by (cases "int i < step_stages s - 1") simp_all
      ultimately have "x = 0 \<or> x \<in> set fl2" by auto
      then show "(0 < x \<longrightarrow> fst ?L = Some (ARK_UNREC_RHSFUNC_ERR K)) \<and>
        (x < 0 \<longrightarrow> fst ?L = Some (ARK_RHSFUNC_FAIL K))"
      proof
        assume "x = 0"
        then show ?thesis by simp
      next
        assume "x \<in> set fl2"
        with fl2(3) show ?thesis by (rule bspec)
      qed
    qed
    show ?thesis
      unfolding eq using a b c by (intro exI [of _ "fl1 @ fl2"] conjI)
  qed
qed

lemma filter_less_upt: "filter (\<lambda>i. i < k) [a..<b] = [a..<min k b]"
proof (induction b)
  case 0
  then show ?case by simp
next
  case (Suc b)
  show ?case
  proof (cases "a \<le> b \<and> b < k")
    case True
    then have "min k (Suc b) = Suc b" "min k b = b" by simp_all
    with Suc True show ?thesis by simp
  next
    case False
    then have "min k (Suc b) = min k b \<or> \<not> a \<le> b" by (auto simp add: min_def)
    with Suc False show ?thesis by (auto simp add: min_def)
  qed
qed

lemma count_inner_stages:
  "length (filter (\<lambda>i. int i < n - 1) [Suc 0..<nat n]) = nat (n - 2)"
proof -
  have "(\<lambda>i. int i < n - 1) = (\<lambda>i. i < nat (n - 1))" by auto
  then have "length (filter (\<lambda>i. int i < n - 1) [Suc 0..<nat n])
      = min (nat (n - 1)) (nat n) - 1"
    by (simp add: filter_less_upt)
  also have "\<dots> = nat (n - 2)" by (simp add: min_def) arith
  finally show ?thesis .
qed

lemma TakeStep_postprocess_Some:
  "fst (TakeStep_postprocess K E s) = Some r \<Longrightarrow> r = ARK_POSTPROCESS_STAGE_FAIL K"
  by (auto simp add: TakeStep_postprocess_def Let_def split_beta split: option.splits if_splits)

lemma TakeStep_reset_Some:
  "fst (TakeStep_reset K E is s) = Some r \<Longrightarrow> r = ARK_INNERSTEP_FAIL K"
  by (auto simp add: TakeStep_reset_def Let_def split_beta split: option.splits if_splits)

lemma TakeStep_nls_setup_Some:
  "fst (TakeStep_nls_setup K E s) = Some r \<Longrightarrow>
   r = ARK_NLS_SETUP_FAIL K \<or> r = ARK_NLS_SETUP_RECVR K"
  by (auto simp add: TakeStep_nls_setup_def Let_def split_beta split: option.splits if_splits)

lemma TakeStep_stage_Some:
  assumes "error_codes_nonzero K" and "fst (TakeStep_stage K E is nflag s) = Some r"
  shows "r \<noteq> ARK_SUCCESS"
proof -
  let ?s0 = "s\<lparr>ark_tcur := ark_tn s + MRIC_c (the (step_MRIC s)) ! nat is * ark_h s\<rparr>"
  let ?D = "TakeStep_dispatch K E is nflag ?s0"
  let ?P = "TakeStep_postprocess K E (snd (snd ?D))"
  let ?R = "TakeStep_reset K E is (snd ?P)"
  let ?S = "TakeStep_slow_rhs K E is (snd ?R)"
  consider "fst ?D \<noteq> ARK_SUCCESS" "r = fst ?D"
    | "fst ?P = Some r" | "fst ?R = Some r" | "fst ?S = Some r"
    using assms(2) by (auto simp add: TakeStep_stage_unfold split: if_splits)
  then show ?thesis
  proof cases
    case 1
    then show ?thesis by simp
  next
    case 2
    with assms(1) TakeStep_postprocess_Some [OF 2] show ?thesis
      by (simp add: error_codes_nonzero_def ARK_SUCCESS_def)
  next
    case 3
    with assms(1) TakeStep_reset_Some [OF 3] show ?thesis
      by (simp add: error_codes_nonzero_def ARK_SUCCESS_def)
  next
    case 4
    with assms(1) show ?thesis
      by (auto simp add: TakeStep_slow_rhs_effect error_codes_nonzero_def ARK_SUCCESS_def
          split: if_splits)
  qed
qed

lemma TakeStep_loop_Some:
  assumes "error_codes_nonzero K"
  shows "fst (TakeStep_loop K E iss nflag s) = Some r \<Longrightarrow> r \<noteq> ARK_SUCCESS"
proof (induction iss arbitrary: nflag s)
  case Nil
  then show ?case by simp
next
  case (Cons i iss)
  show ?case
  proof (cases "fst (TakeStep_stage K E (int i) nflag s) = None")
    case True
    with Cons show ?thesis
      by (simp add: TakeStep_loop_unfold del: TakeStep_loop.simps)
  next
    case False
    with Cons.prems have "fst (TakeStep_stage K E (int i) nflag s) = Some r"
      by (simp add: TakeStep_loop_unfold del: TakeStep_loop.simps)
    with assms show ?thesis by (rule TakeStep_stage_Some)
  qed
qed

lemma TakeStep_unfold:
  "mriStep_TakeStep K E s =
     (if fst (TakeStep_nls_setup K E s) \<noteq> None
      then (the (fst (TakeStep_nls_setup K E s)), 0, ARK_SUCCESS, snd (TakeStep_nls_setup K E s))
      else
        (case fst (TakeStep_loop K E [1..<nat (step_stages s)] ARK_SUCCESS
                     (snd (TakeStep_nls_setup K E s))) of
           Some r \<Rightarrow> r | None \<Rightarrow> ARK_SUCCESS,
         0,
         fst (snd (TakeStep_loop K E [1..<nat (step_stages s)] ARK_SUCCESS
                     (snd (TakeStep_nls_setup K E s)))),
         snd (snd (TakeStep_loop K E [1..<nat (step_stages s)] ARK_SUCCESS
                     (snd (TakeStep_nls_setup K E s))))))"
proof -
  have st: "step_stages (snd (TakeStep_nls_setup K E s)) = step_stages s"
    by (rule step_summaryD(1) [OF TakeStep_nls_setup_summary])
  show ?thesis
    by (cases "TakeStep_nls_setup K E s";
        cases "TakeStep_loop K E [1..<nat (step_stages s)] ARK_SUCCESS (snd (TakeStep_nls_setup K E s))")
      (auto simp add: mriStep_TakeStep_def Let_def st [symmetric] split: option.splits
        simp del: upt_Suc)
qed

lemmas take_step_defs =
  mriStep_TakeStep_def TakeStep_nls_setup_def TakeStep_stage_def TakeStep_dispatch_def
  TakeStep_postprocess_def TakeStep_reset_def TakeStep_slow_rhs_def
  mriStep_StageERKFast_def StageERKFast_evolve_def mriStep_ComputeInnerForcing_def
  mriStepInnerStepper_Evolve_def mriStepInnerStepper_Reset_def call_fs_def log_call_def
  N_VLinearCombination_def ARK_SUCCESS_def Let_def

lemmas demo_defs =
  demo_mem_def demo_env_def demo_table_def sundials_consts_def numeral_3_eq_3 upt_rec

lemma demo_take_step:
  "fst (mriStep_TakeStep sundials_consts demo_env demo_mem) = 0"
  "step_nfs (snd (snd (snd (mriStep_TakeStep sundials_consts demo_env demo_mem)))) = 2"
  "trace (snd (snd (snd (mriStep_TakeStep sundials_consts demo_env demo_mem)))) =
     [Call_evolve 0 (1 / 20) [2] 0 (1 / 20) 1 0, Call_fs (1 / 20) (11 / 10) 0,
      Call_evolve (1 / 20) (1 / 20) [12 / 5] (1 / 20) (1 / 10) (11 / 10) 0]"
  "ark_ycur (snd (snd (snd (mriStep_TakeStep sundials_consts demo_env demo_mem)))) = 61 / 50"
  by (simp_all add: take_step_defs demo_defs)

lemma demo_take_step_dirk:
  "fst (mriStep_TakeStep sundials_consts demo_env demo_mem_dirk) = 0"
  "step_nfs (snd (snd (snd (mriStep_TakeStep sundials_consts demo_env demo_mem_dirk)))) = 3"
  "trace (snd (snd (snd (mriStep_TakeStep sundials_consts demo_env demo_mem_dirk)))) =
     [Call_evolve 0 (1 / 10) [2] 0 (1 / 10) 1 0, Call_fs (1 / 10) (6 / 5) 0,
      Call_fs_nls (1 / 10) 1 0, Call_Nls 1 0, Call_reset (1 / 10) 1 0]"
  "ark_ycur (snd (snd (snd (mriStep_TakeStep sundials_consts demo_env demo_mem_dirk)))) = 1"
  "ark_tcur (snd (snd (snd (mriStep_TakeStep sundials_consts demo_env demo_mem_dirk)))) = 1 / 10"
  by (simp_all add: take_step_defs demo_mem_dirk_def demo_table_dirk_def
      mriStep_StageDIRKNoFast_def StageDIRKNoFast_solve_def mriStep_Predict_def
      mriStep_StageSetup_def mriStep_Nls_def mriStep_RKCoeffs_def hide_trace_def N_VScale_def
      N_VLinearSum_def
      demo_mem_def demo_env_def sundials_consts_def numeral_3_eq_3 numeral_2_eq_2 upt_rec)




subsection \<open>The slow right-hand side within a step\<close>

text \<open>
  C5. A call of \<^verbatim>\<open>mriStep_TakeStep\<close> that returns \<^verbatim>\<open>ARK_SUCCESS\<close> calls the slow
  right-hand side once for every stage but the first and the last: the counter \<open>nfs\<close>,
  less the evaluations made inside the nonlinear solver, grows by \<open>stages - 2\<close> (by
  nothing when there are fewer than two stages), and so does the number of logged calls
  of \<^verbatim>\<open>fs\<close>.
\<close>

theorem take_step_nfs:
  assumes "error_codes_nonzero K" and "fst (mriStep_TakeStep K E s) = ARK_SUCCESS"
  shows "step_nfs (snd (snd (snd (mriStep_TakeStep K E s))))
           - int (nls_rhs_evals (trace (snd (snd (snd (mriStep_TakeStep K E s))))))
         = step_nfs s - int (nls_rhs_evals (trace s)) + int (nat (step_stages s - 2)) \<and>
         length (fs_flags (trace (snd (snd (snd (mriStep_TakeStep K E s))))))
         = length (fs_flags (trace s)) + nat (step_stages s - 2)"
proof -
  let ?N = "TakeStep_nls_setup K E s"
  let ?L = "TakeStep_loop K E [1..<nat (step_stages s)] ARK_SUCCESS (snd ?N)"
  have N: "fst ?N = None"
  proof (rule ccontr)
    assume "fst ?N \<noteq> None"
    then obtain r where r: "fst ?N = Some r" by auto
    with assms(2) have "r = ARK_SUCCESS" by (simp add: TakeStep_unfold)
    with TakeStep_nls_setup_Some [OF r] assms(1) show False
      by (auto simp add: error_codes_nonzero_def ARK_SUCCESS_def)
  qed
  have L: "fst ?L = None"
  proof (rule ccontr)
    assume "fst ?L \<noteq> None"
    then obtain r where r: "fst ?L = Some r" by auto
    with assms(2) N have "r = ARK_SUCCESS" by (simp add: TakeStep_unfold)
    with TakeStep_loop_Some [OF assms(1) r] show False by simp
  qed
  have res: "snd (snd (snd (mriStep_TakeStep K E s))) = snd (snd ?L)"
    using N by (simp add: TakeStep_unfold)
  have sN: "step_stages (snd ?N) = step_stages s" "own_nfs (snd ?N) = own_nfs s"
    "fs_flags (trace (snd ?N)) = fs_flags (trace s)"
    using step_summaryD(1,4,5) [OF TakeStep_nls_setup_summary [of K E s]] by simp_all
  have "own_nfs (snd (snd ?L)) = own_nfs s + int (nat (step_stages s - 2))"
    using TakeStep_loop_nfs [OF L] sN by (simp add: count_inner_stages)
  moreover
  from TakeStep_loop_fs_flags [of K E "[1..<nat (step_stages s)]" ARK_SUCCESS "snd ?N"]
  obtain fl where "fs_flags (trace (snd (snd ?L))) = fs_flags (trace (snd ?N)) @ fl \<and>
     (fst ?L = None \<longrightarrow>
        fl = replicate (length (filter (\<lambda>i. int i < step_stages (snd ?N) - 1)
                                   [1..<nat (step_stages s)])) 0) \<and>
     (\<forall>x \<in> set fl.
        (0 < x \<longrightarrow> fst ?L = Some (ARK_UNREC_RHSFUNC_ERR K)) \<and>
        (x < 0 \<longrightarrow> fst ?L = Some (ARK_RHSFUNC_FAIL K)))" ..
  then have "fs_flags (trace (snd (snd ?L))) = fs_flags (trace (snd ?N)) @ fl"
    and "fst ?L = None \<longrightarrow>
        fl = replicate (length (filter (\<lambda>i. int i < step_stages (snd ?N) - 1)
                                   [1..<nat (step_stages s)])) 0"
    by blast+
  then have "length (fs_flags (trace (snd (snd ?L)))) =
      length (fs_flags (trace s)) + nat (step_stages s - 2)"
    using L sN by (simp add: count_inner_stages)
  ultimately show ?thesis
    unfolding res by (simp add: own_nfs_def)
qed

theorem take_step_nfs_witness:
  "fst (mriStep_TakeStep sundials_consts demo_env demo_mem) = ARK_SUCCESS \<and>
   step_nfs (snd (snd (snd (mriStep_TakeStep sundials_consts demo_env demo_mem))))
     - int (nls_rhs_evals (trace (snd (snd (snd
         (mriStep_TakeStep sundials_consts demo_env demo_mem)))))) = 2 \<and>
   length (fs_flags (trace (snd (snd (snd
     (mriStep_TakeStep sundials_consts demo_env demo_mem)))))) = 1 \<and>
   fst (mriStep_TakeStep sundials_consts demo_env demo_mem_dirk) = ARK_SUCCESS \<and>
   step_nfs (snd (snd (snd (mriStep_TakeStep sundials_consts demo_env demo_mem_dirk)))) = 3 \<and>
   step_nfs (snd (snd (snd (mriStep_TakeStep sundials_consts demo_env demo_mem_dirk))))
     - int (nls_rhs_evals (trace (snd (snd (snd
         (mriStep_TakeStep sundials_consts demo_env demo_mem_dirk)))))) = 2"
proof -
  have K: "error_codes_nonzero sundials_consts"
    by (simp add: error_codes_nonzero_def sundials_consts_def)
  have r: "fst (mriStep_TakeStep sundials_consts demo_env demo_mem) = ARK_SUCCESS"
    "fst (mriStep_TakeStep sundials_consts demo_env demo_mem_dirk) = ARK_SUCCESS"
    by (simp_all add: demo_take_step demo_take_step_dirk ARK_SUCCESS_def)
  have v: "step_nfs demo_mem = 1" "trace demo_mem = []" "step_stages demo_mem = 3"
    "step_nfs demo_mem_dirk = 1" "trace demo_mem_dirk = []" "step_stages demo_mem_dirk = 3"
    by (simp_all add: demo_mem_def demo_mem_dirk_def)
  from take_step_nfs [OF K r(1)] take_step_nfs [OF K r(2)] r show ?thesis
    by (simp add: v demo_take_step_dirk(2))
qed

theorem take_step_nfs_counterexample:
  "fst (mriStep_TakeStep sundials_consts demo_env demo_mem) = ARK_SUCCESS \<and>
   step_stages demo_mem = 3 \<and>
   nls_rhs_evals (trace (snd (snd (snd
     (mriStep_TakeStep sundials_consts demo_env demo_mem))))) = 0 \<and>
   step_nfs (snd (snd (snd (mriStep_TakeStep sundials_consts demo_env demo_mem))))
     = step_nfs demo_mem + 1 \<and>
   step_nfs (snd (snd (snd (mriStep_TakeStep sundials_consts demo_env demo_mem))))
     \<noteq> step_nfs demo_mem + (step_stages demo_mem - 1)"
proof -
  have v: "step_nfs demo_mem = 1" "step_stages demo_mem = 3" by (simp_all add: demo_mem_def)
  show ?thesis by (simp add: demo_take_step v ARK_SUCCESS_def)
qed




subsection \<open>Resetting the inner stepper\<close>



end
